theory Spec2Isabelle
  imports Complex_Main "HOL-Library.Log_Nat"
begin

section \<open>Shared types (src/lib/types.ts, src/lib/game/state.ts)\<close>

datatype WorkerStatus = STATUS_FINISHED | STATUS_PROCESSING | STATUS_IDLE | STATUS_ERROR

definition MESSAGE_START :: string where
  "MESSAGE_START = ''START''"

definition MESSAGE_GAME_UPDATE :: string where
  "MESSAGE_GAME_UPDATE = ''GAME_UPDATE''"

text \<open>The terrain tags are the one-letter string literals of \<open>TERRAIN\<close>.\<close>

datatype TerrainType = W | B | F | M | G | R | S | H

fun terrainNames :: "TerrainType \<Rightarrow> string" where
  "terrainNames W = ''Water''"
| "terrainNames B = ''Beach''"
| "terrainNames F = ''Forest''"
| "terrainNames M = ''Mountain''"
| "terrainNames G = ''Grassland''"
| "terrainNames R = ''River''"
| "terrainNames S = ''Swamp''"
| "terrainNames H = ''Hills''"

record Position =
  pos_x :: int
  pos_y :: int

text \<open>\<open>Direction\<close> is a union of six string literals; \<open>directionText\<close> is the string itself,
  as a template literal prints it.\<close>

datatype Direction = Up | Down | Left | Right | Back | Front

fun directionText :: "Direction \<Rightarrow> string" where
  "directionText Up = ''up''"
| "directionText Down = ''down''"
| "directionText Left = ''left''"
| "directionText Right = ''right''"
| "directionText Back = ''back''"
| "directionText Front = ''front''"

datatype IdleStateType = ACTIVE | RESTING | IDLE | SLEEPING

fun idleStateText :: "IdleStateType \<Rightarrow> string" where
  "idleStateText ACTIVE = ''active''"
| "idleStateText RESTING = ''resting''"
| "idleStateText IDLE = ''idle''"
| "idleStateText SLEEPING = ''sleeping''"

text \<open>\<open>IdleThresholds\<close>, in milliseconds.\<close>

definition IdleThresholds_RESTING :: int where
  "IdleThresholds_RESTING = 200"

definition IdleThresholds_IDLE :: int where
  "IdleThresholds_IDLE = 5000"

definition IdleThresholds_SLEEPING :: int where
  "IdleThresholds_SLEEPING = 30000"

text \<open>A number of the language is an IEEE 754 double: a rational that the format can hold,
  an infinity or \<open>NaN\<close>. The sign of zero is not kept.\<close>

datatype jsnumber = Finite rat | PosInfinity | NegInfinity | NaN

text \<open>The exponent \<open>e\<close> with \<open>2 ^ e \<le> a < 2 ^ (e + 1)\<close>, for \<open>a > 0\<close>.\<close>

definition floorLog2 :: "rat \<Rightarrow> int" where
  "floorLog2 a = (if a \<ge> 1 then bitlen \<lfloor>a\<rfloor> - 1 else - bitlen (\<lceil>1 / a\<rceil> - 1))"

definition pow2 :: "int \<Rightarrow> rat" where
  "pow2 u = (if u \<ge> 0 then 2 ^ nat u else 1 / 2 ^ nat (- u))"

definition roundHalfEven :: "rat \<Rightarrow> int" where
  "roundHalfEven m =
     (let f = \<lfloor>m\<rfloor>; r = m - of_int f
      in if r < 1 / 2 then f else if r > 1 / 2 then f + 1 else if even f then f else f + 1)"

text \<open>The double nearest to an exact result, ties to the even significand: 53 significant
  bits, the spacing of the subnormal numbers below \<open>2 ^ - 1022\<close>, an infinity from \<open>2 ^ 1024\<close>
  on.\<close>

definition roundToDouble :: "rat \<Rightarrow> jsnumber" where
  "roundToDouble x =
     (if x = 0 then Finite 0
      else
        (let a = \<bar>x\<bar>;
             u = max (floorLog2 a) (- 1022) - 52;
             y = of_int (roundHalfEven (a / pow2 u)) * pow2 u
         in if y \<ge> 2 ^ 1024 then (if x < 0 then NegInfinity else PosInfinity)
            else Finite (if x < 0 then - y else y)))"

definition infinityTimes :: "rat \<Rightarrow> jsnumber" where
  "infinityTimes a = (if a = 0 then NaN else if a < 0 then NegInfinity else PosInfinity)"

text \<open>The operator \<open>*\<close> on numbers.\<close>

fun jsMul :: "jsnumber \<Rightarrow> jsnumber \<Rightarrow> jsnumber" where
  "jsMul NaN y = NaN"
| "jsMul x NaN = NaN"
| "jsMul (Finite a) (Finite b) = roundToDouble (a * b)"
| "jsMul (Finite a) PosInfinity = infinityTimes a"
| "jsMul (Finite a) NegInfinity = infinityTimes (- a)"
| "jsMul PosInfinity (Finite b) = infinityTimes b"
| "jsMul NegInfinity (Finite b) = infinityTimes (- b)"
| "jsMul PosInfinity PosInfinity = PosInfinity"
| "jsMul PosInfinity NegInfinity = NegInfinity"
| "jsMul NegInfinity PosInfinity = NegInfinity"
| "jsMul NegInfinity NegInfinity = PosInfinity"

text \<open>\<open>GameState\<close> without its optional presentation field \<open>theme\<close>. Times are the integer
  milliseconds of \<open>Date.now()\<close>.\<close>

record GameState =
  position :: Position
  facing :: Direction
  isMoving :: bool
  terrain :: TerrainType
  status :: WorkerStatus
  message :: string
  isStarted :: bool
  idleState :: IdleStateType
  lastActivityTime :: int

section \<open>The worker (src/lib/workers/worker.ts)\<close>

record WorkerGameState = GameState +
  currentTerrain :: TerrainType

record WorkerMessage =
  task :: string
  direction :: "Direction option"
  time :: "jsnumber option"

text \<open>A posted \<open>WorkerResponse\<close>; an absent property is \<open>None\<close>. \<open>postMessage\<close> copies its
  argument, so \<open>r_gameState\<close> holds the state as it was when the message was posted.\<close>

record WorkerResponse =
  r_status :: WorkerStatus
  r_message :: "string option"
  r_gameState :: "WorkerGameState option"
  r_terrainMap :: "TerrainType list list option"
  r_step :: "nat option"
  r_total :: "nat option"
  r_result :: "jsnumber option"

text \<open>\<open>movementCost\<close> is a number or \<open>Infinity\<close>; \<open>None\<close> stands for \<open>Infinity\<close>.\<close>

record TerrainProperties =
  walkable :: bool
  movementCost :: "real option"
  name :: string

fun terrainProperties :: "TerrainType \<Rightarrow> TerrainProperties" where
  "terrainProperties W = \<lparr>walkable = False, movementCost = None, name = ''Water''\<rparr>"
| "terrainProperties B = \<lparr>walkable = True, movementCost = Some 1, name = ''Beach''\<rparr>"
| "terrainProperties F = \<lparr>walkable = True, movementCost = Some 1.2, name = ''Forest''\<rparr>"
| "terrainProperties M = \<lparr>walkable = False, movementCost = None, name = ''Mountain''\<rparr>"
| "terrainProperties G = \<lparr>walkable = True, movementCost = Some 1, name = ''Grassland''\<rparr>"
| "terrainProperties R = \<lparr>walkable = True, movementCost = Some 1.5, name = ''River''\<rparr>"
| "terrainProperties S = \<lparr>walkable = True, movementCost = Some 2, name = ''Swamp''\<rparr>"
| "terrainProperties H = \<lparr>walkable = True, movementCost = Some 1.3, name = ''Hills''\<rparr>"

definition terrainMap :: "TerrainType list list" where
  "terrainMap = [
  [W,W,W,W,W,W,W,W,W,W,W,W,W,W,W,W,W,W,W,W],
  [W,W,B,B,B,B,B,B,B,B,B,B,B,B,B,B,B,B,W,W],
  [W,B,G,G,F,F,F,H,H,M,H,H,F,F,F,G,G,B,B,W],
  [W,B,G,F,F,H,H,M,M,M,M,H,H,F,F,F,G,G,B,W],
  [W,B,F,F,H,H,M,M,M,M,M,M,H,H,F,F,F,G,B,W],
  [W,R,R,F,H,M,M,M,M,M,M,M,M,H,H,R,F,B,B,W],
  [W,S,R,F,H,H,M,M,M,M,M,H,R,F,F,F,G,B,B,W],
  [W,B,G,R,F,H,H,M,M,M,M,H,R,F,F,F,G,B,B,W],
  [W,B,G,F,R,F,H,H,H,H,H,R,F,F,F,G,B,B,W,W],
  [W,B,G,F,F,R,F,F,F,R,R,F,F,F,G,G,B,B,W,W],
  [W,B,G,F,F,F,R,R,R,F,F,F,F,G,G,B,B,W,W,W],
  [W,S,R,F,F,F,F,F,F,F,F,G,G,G,B,B,W,W,W,W],
  [W,B,B,G,G,G,G,G,G,G,G,G,B,B,B,W,W,W,W,W],
  [W,W,B,B,B,B,B,B,B,B,B,B,B,B,W,W,W,W,W,W],
  [W,W,W,W,W,W,W,W,W,W,W,W,W,W,W,W,W,W,W,W]
  ]"

text \<open>What a handler can throw: \<open>new Error(msg)\<close>, or the engine's \<open>TypeError\<close> on reading a
  property of \<open>undefined\<close>. Both are instances of \<open>Error\<close>; the text of the second is the
  engine's own, for which \<open>typeErrorText\<close> stands.\<close>

datatype exn = Error string | TypeError

definition typeErrorText :: string where
  "typeErrorText = ''Cannot read properties of undefined''"

fun exnMessage :: "exn \<Rightarrow> string" where
  "exnMessage (Error msg) = msg"
| "exnMessage TypeError = typeErrorText"

text \<open>\<open>xs[i]\<close> for an integer \<open>i\<close>: \<open>undefined\<close> (\<open>None\<close>) outside the array.\<close>

definition jsIndex :: "'a list \<Rightarrow> int \<Rightarrow> 'a option" where
  "jsIndex xs i = (if 0 \<le> i \<and> i < int (length xs) then Some (xs ! nat i) else None)"

text \<open>\<open>terrainMap[p.y][p.x]\<close>: a \<open>TypeError\<close> when the row is \<open>undefined\<close>, \<open>undefined\<close> when
  only the column is outside the row.\<close>

definition cellAt :: "Position \<Rightarrow> exn + TerrainType option" where
  "cellAt p = (case jsIndex terrainMap (pos_y p) of
                 None \<Rightarrow> Inl TypeError
               | Some row \<Rightarrow> Inr (jsIndex row (pos_x p)))"

text \<open>\<open>terrainNames[t]\<close> inside a template literal; \<open>terrainNames[undefined]\<close> is \<open>undefined\<close>.\<close>

fun terrainNameText :: "TerrainType option \<Rightarrow> string" where
  "terrainNameText None = ''undefined''"
| "terrainNameText (Some t) = terrainNames t"

definition isInBounds :: "Position \<Rightarrow> bool" where
  "isInBounds p \<longleftrightarrow>
     pos_x p \<ge> 0 \<and> pos_x p < int (length (terrainMap ! 0)) \<and>
     pos_y p \<ge> 0 \<and> pos_y p < int (length terrainMap)"

definition canMove :: "Position \<Rightarrow> exn + bool" where
  "canMove p =
     (if \<not> isInBounds p then Inr False
      else case cellAt p of
             Inl e \<Rightarrow> Inl e
           | Inr None \<Rightarrow> Inl TypeError
           | Inr (Some t) \<Rightarrow> Inr (walkable (terrainProperties t)))"

text \<open>The worker's module state: \<open>gameState\<close>, whether the idle-check interval is set, the
  messages posted so far (oldest first), and the step delays of the progress tasks that
  \<open>handleGameStart\<close> has started.\<close>

record Worker =
  gameState :: WorkerGameState
  idleCheckInterval :: bool
  posted :: "WorkerResponse list"
  progressTasks :: "jsnumber list"

text \<open>The module's initial state; \<open>t0\<close> is \<open>Date.now()\<close> at load time.\<close>

definition initialWorker :: "int \<Rightarrow> Worker" where
  "initialWorker t0 =
     \<lparr>gameState =
        \<lparr>position = \<lparr>pos_x = 2, pos_y = 2\<rparr>, facing = Down, isMoving = False, terrain = G,
         status = STATUS_IDLE, message = [], isStarted = False, idleState = ACTIVE,
         lastActivityTime = t0, currentTerrain = G\<rparr>,
      idleCheckInterval = False, posted = [], progressTasks = []\<rparr>"

definition postMessage :: "WorkerResponse \<Rightarrow> Worker \<Rightarrow> Worker" where
  "postMessage r w = w\<lparr>posted := posted w @ [r]\<rparr>"

definition emptyResponse :: "WorkerStatus \<Rightarrow> WorkerResponse" where
  "emptyResponse st =
     \<lparr>r_status = st, r_message = None, r_gameState = None, r_terrainMap = None,
      r_step = None, r_total = None, r_result = None\<rparr>"

text \<open>The threshold cascade of the interval callback in \<open>startIdleCheck\<close>.\<close>

definition newIdleStateFor :: "int \<Rightarrow> IdleStateType" where
  "newIdleStateFor timeSinceLastActivity =
     (if timeSinceLastActivity \<ge> IdleThresholds_SLEEPING then SLEEPING
      else if timeSinceLastActivity \<ge> IdleThresholds_IDLE then IDLE
      else if timeSinceLastActivity \<ge> IdleThresholds_RESTING then RESTING
      else ACTIVE)"

text \<open>One firing of the interval callback at time \<open>now\<close>.\<close>

definition idleCheck :: "int \<Rightarrow> Worker \<Rightarrow> Worker" where
  "idleCheck now w =
     (let newIdleState = newIdleStateFor (now - lastActivityTime (gameState w)) in
      if newIdleState \<noteq> idleState (gameState w) then
        (let gs = (gameState w)\<lparr>idleState := newIdleState\<rparr> in
         postMessage
           ((emptyResponse STATUS_PROCESSING)
              \<lparr>r_gameState := Some gs,
               r_message := Some (''State changed to '' @ idleStateText newIdleState)\<rparr>)
           (w\<lparr>gameState := gs\<rparr>))
      else w)"

definition startIdleCheck :: "Worker \<Rightarrow> Worker" where
  "startIdleCheck w = w\<lparr>idleCheckInterval := True\<rparr>"

text \<open>The loop of \<open>longRunningFunction\<close>, from counter \<open>i\<close>, appending to what the task has
  posted so far.\<close>

function progressLoop :: "nat \<Rightarrow> nat \<Rightarrow> WorkerResponse list \<Rightarrow> WorkerResponse list" where
  "progressLoop i total' out =
     (if i < total' then
        progressLoop (i + 1) total'
          (out @ [(emptyResponse STATUS_PROCESSING)\<lparr>r_step := Some (i + 1), r_total := Some total'\<rparr>])
      else out)"
  by pat_completeness auto
termination
  by (relation "measure (\<lambda>(i, total', out). total' - i)") auto

declare progressLoop.simps [simp del]

text \<open>The messages that one call of \<open>longRunningFunction(time)\<close> posts, in order. The task
  waits on a timer before each step, so other handlers run in between; it reads and writes
  nothing but its own counter. The text that the template literal prints for a number is the
  engine's conversion of numbers to strings, the parameter \<open>numberText\<close>.\<close>

definition longRunningFunction :: "(jsnumber \<Rightarrow> string) \<Rightarrow> jsnumber \<Rightarrow> WorkerResponse list" where
  "longRunningFunction numberText time' =
     (let total' = 100 in
      progressLoop 0 total' [] @
        [(emptyResponse STATUS_FINISHED)
           \<lparr>r_result := Some (jsMul time' (Finite (of_nat total'))),
            r_message := Some (''Task finished with time = '' @ numberText time')\<rparr>])"

text \<open>\<open>handleGameStart(time = 100)\<close>: the default applies to an absent \<open>time\<close>.\<close>

definition handleGameStart :: "jsnumber option \<Rightarrow> Worker \<Rightarrow> Worker" where
  "handleGameStart time_arg w =
     (let time' = (case time_arg of None \<Rightarrow> Finite 100 | Some t \<Rightarrow> t);
          w1 = startIdleCheck w;
          w2 = postMessage
                 ((emptyResponse STATUS_PROCESSING)
                    \<lparr>r_message := Some ''Game initialized'',
                     r_gameState := Some (gameState w1),
                     r_terrainMap := Some terrainMap\<rparr>) w1
      in w2\<lparr>progressTasks := progressTasks w2 @ [time']\<rparr>)"

text \<open>The \<open>switch\<close> of \<open>handleMovement\<close>; \<open>None\<close> is its throwing \<open>default\<close> branch.\<close>

fun moveTarget :: "Direction \<Rightarrow> Position \<Rightarrow> Position option" where
  "moveTarget Left p = Some (p\<lparr>pos_x := pos_x p - 1\<rparr>)"
| "moveTarget Right p = Some (p\<lparr>pos_x := pos_x p + 1\<rparr>)"
| "moveTarget Up p = Some (p\<lparr>pos_y := pos_y p - 1\<rparr>)"
| "moveTarget Down p = Some (p\<lparr>pos_y := pos_y p + 1\<rparr>)"
| "moveTarget d p = None"

definition movedText :: "Direction \<Rightarrow> TerrainType option \<Rightarrow> TerrainType option \<Rightarrow> string" where
  "movedText d old new =
     ''Moved '' @ directionText d @ '' from '' @ terrainNameText old @ '' to '' @ terrainNameText new"

definition blockedText :: "Direction \<Rightarrow> string \<Rightarrow> string" where
  "blockedText d blocker = ''Cannot move '' @ directionText d @ '' - blocked by '' @ blocker"

text \<open>\<open>handleMovement\<close>, with \<open>now\<close> its own reading of the clock. The first component is the
  exception it throws, if any; assignments made before a throw stay. Where \<open>canMove\<close> holds
  the target is a cell of the map (\<open>canMove_eq\<close>, \<open>cellAt_inBounds\<close> below), so the branches
  of the successful move in which the lookup of the new terrain fails are never taken.\<close>

definition handleMovement :: "int \<Rightarrow> Direction \<Rightarrow> Worker \<Rightarrow> exn option \<times> Worker" where
  "handleMovement now d w =
     (let gs1 = (gameState w)\<lparr>lastActivityTime := now, idleState := ACTIVE, facing := d\<rparr>;
          w1 = w\<lparr>gameState := gs1\<rparr>
      in case moveTarget d (position gs1) of
           None \<Rightarrow> (Some (Error (''Invalid direction: '' @ directionText d)), w1)
         | Some newPos \<Rightarrow>
       (case cellAt (position gs1) of
           Inl e \<Rightarrow> (Some e, w1)
         | Inr oldTerrain \<Rightarrow>
       (case canMove newPos of
           Inl e \<Rightarrow> (Some e, w1)
         | Inr True \<Rightarrow>
             (case cellAt newPos of
                Inl e \<Rightarrow> (Some e, w1)
              | Inr None \<Rightarrow> (Some TypeError, w1)
              | Inr (Some newTerrain) \<Rightarrow>
                  (let msg = movedText d oldTerrain (Some newTerrain);
                       gs2 = gs1\<lparr>position := newPos, currentTerrain := newTerrain,
                                 terrain := newTerrain, message := msg\<rparr>
                   in (None,
                       postMessage
                         ((emptyResponse STATUS_PROCESSING)
                            \<lparr>r_gameState := Some gs2, r_message := Some msg,
                             r_terrainMap := Some terrainMap\<rparr>)
                         (w1\<lparr>gameState := gs2\<rparr>))))
         | Inr False \<Rightarrow>
             (case (if isInBounds newPos
                    then (case cellAt newPos of Inl e \<Rightarrow> Inl e | Inr t \<Rightarrow> Inr (terrainNameText t))
                    else Inr ''boundary'') of
                Inl e \<Rightarrow> (Some e, w1)
              | Inr blocker \<Rightarrow>
                  (let msg = blockedText d blocker;
                       gs2 = gs1\<lparr>message := msg\<rparr>
                   in (None,
                       postMessage
                         ((emptyResponse STATUS_ERROR)
                            \<lparr>r_gameState := Some gs2, r_message := Some msg,
                             r_terrainMap := Some terrainMap\<rparr>)
                         (w1\<lparr>gameState := gs2\<rparr>)))))))"

text \<open>\<open>self.onmessage\<close>: \<open>now\<close> is its reading of the clock, \<open>now2\<close> the later one made by
  \<open>handleMovement\<close>. Every \<open>Direction\<close> is a non-empty string, so \<open>e.data.direction\<close> is
  falsy only when absent.\<close>

definition onmessage :: "int \<Rightarrow> int \<Rightarrow> WorkerMessage \<Rightarrow> Worker \<Rightarrow> Worker" where
  "onmessage now now2 m w0 =
     (let w = w0\<lparr>gameState := (gameState w0)\<lparr>lastActivityTime := now\<rparr>\<rparr>;
          (thrown, w') =
            (if task m = MESSAGE_START then (None, handleGameStart (time m) w)
             else if task m = MESSAGE_GAME_UPDATE then
               (case direction m of
                  Some d \<Rightarrow> handleMovement now2 d w
                | None \<Rightarrow> (None, w))
             else (Some (Error (''Unknown task: '' @ task m)), w))
      in case thrown of
           None \<Rightarrow> w'
         | Some e \<Rightarrow>
             postMessage ((emptyResponse STATUS_ERROR)\<lparr>r_message := Some (exnMessage e)\<rparr>) w')"

text \<open>What the worker's event loop can run: a message from the main thread (with the two
  clock readings), or the idle-check timer firing, which happens only once an interval
  has been set.\<close>

datatype WorkerInput = Incoming int int WorkerMessage | IdleTimer int

fun workerStep :: "WorkerInput \<Rightarrow> Worker \<Rightarrow> Worker" where
  "workerStep (Incoming now now2 m) w = onmessage now now2 m w"
| "workerStep (IdleTimer now) w = (if idleCheckInterval w then idleCheck now w else w)"

fun workerRun :: "WorkerInput list \<Rightarrow> Worker \<Rightarrow> Worker" where
  "workerRun [] w = w"
| "workerRun (i # is) w = workerRun is (workerStep i w)"

definition moveMessage :: "Direction \<Rightarrow> WorkerMessage" where
  "moveMessage d = \<lparr>task = MESSAGE_GAME_UPDATE, direction = Some d, time = None\<rparr>"

definition startMessage :: "jsnumber option \<Rightarrow> WorkerMessage" where
  "startMessage t = \<lparr>task = MESSAGE_START, direction = None, time = t\<rparr>"

section \<open>The render controller (src/lib/game/Game.ts)\<close>

text \<open>The numbers of the render side (frame timestamps, phases, canvas sizes, cloud
  coordinates) are modelled as reals. \<open>Math.random()\<close> is a sequence \<open>rnd\<close> of numbers, of
  which the functions below take the next ones from a cursor \<open>k\<close> and return the cursor
  after their last draw.\<close>

record Cloud =
  cloud_x :: real
  cloud_y :: real
  cloud_speed :: real
  cloud_size :: real
  cloud_opacity :: real

record AnimationSettings =
  enableClouds :: bool
  enableWaves :: bool
  enableRiver :: bool

text \<open>The argument of \<open>setAnimationSettings\<close>: every property is optional, so it is absent
  (\<open>None\<close>) or a boolean.\<close>

record AnimationSettingsArg =
  arg_enableClouds :: "bool option"
  arg_enableWaves :: "bool option"
  arg_enableRiver :: "bool option"

text \<open>The data fields of \<open>Game\<close>; of the canvas only its size matters here, and the
  \<open>animationFrame\<close> handle is a number or \<open>null\<close>.\<close>

record Game =
  canvas_width :: real
  canvas_height :: real
  animationFrame :: "nat option"
  lastFrameTime :: real
  frameThrottle :: real
  movementCooldown :: bool
  state :: GameState
  isRunning :: bool
  g_currentTerrain :: TerrainType
  riverOffset :: real
  animationSettings :: AnimationSettings
  g_terrainMap :: "TerrainType list list option"
  clouds :: "Cloud list"
  cloudOffset :: real
  waterOffset :: real
  lastAnimationUpdate :: real

definition CLOUD_COUNT :: nat where
  "CLOUD_COUNT = 8"

definition MIN_CLOUD_SPEED :: real where
  "MIN_CLOUD_SPEED = 0.05"

definition MAX_CLOUD_SPEED :: real where
  "MAX_CLOUD_SPEED = 0.2"

definition createCloud :: "(nat \<Rightarrow> real) \<Rightarrow> Game \<Rightarrow> nat \<Rightarrow> bool \<Rightarrow> nat \<Rightarrow> Cloud \<times> nat" where
  "createCloud rnd g index forceOffscreen k =
     (let size' = 60 + rnd k * 100;
          (x, k1) = (if forceOffscreen then (- size', k + 1)
                     else (real index * (canvas_width g / real CLOUD_COUNT) + rnd (k + 1) * 200,
                           k + 2))
      in (\<lparr>cloud_x = x,
           cloud_y = rnd k1 * (canvas_height g * 0.4),
           cloud_speed = MIN_CLOUD_SPEED + rnd (k1 + 1) * (MAX_CLOUD_SPEED - MIN_CLOUD_SPEED),
           cloud_size = size',
           cloud_opacity = 0.4 + rnd (k1 + 2) * 0.3\<rparr>,
          k1 + 3))"

text \<open>The \<open>map\<close> of \<open>initializeClouds\<close> over the indices, in order.\<close>

fun createClouds :: "(nat \<Rightarrow> real) \<Rightarrow> Game \<Rightarrow> nat list \<Rightarrow> nat \<Rightarrow> Cloud list \<times> nat" where
  "createClouds rnd g [] k = ([], k)"
| "createClouds rnd g (i # is) k =
     (let (c, k1) = createCloud rnd g i False k;
          (cs, k2) = createClouds rnd g is k1
      in (c # cs, k2))"

definition initializeClouds :: "(nat \<Rightarrow> real) \<Rightarrow> Game \<Rightarrow> nat \<Rightarrow> Game \<times> nat" where
  "initializeClouds rnd g k =
     (let (cs, k') = createClouds rnd g [0..<CLOUD_COUNT] k in (g\<lparr>clouds := cs\<rparr>, k'))"

text \<open>The \<open>forEach\<close> of \<open>updateClouds\<close>, from slot \<open>index\<close> on: each cloud is moved in place,
  and the slot is overwritten when the cloud has left the canvas.\<close>

fun updateCloudsFrom ::
  "(nat \<Rightarrow> real) \<Rightarrow> Game \<Rightarrow> nat \<Rightarrow> Cloud list \<Rightarrow> nat \<Rightarrow> Cloud list \<times> nat" where
  "updateCloudsFrom rnd g index [] k = ([], k)"
| "updateCloudsFrom rnd g index (cloud # rest) k =
     (let moved = cloud\<lparr>cloud_x := cloud_x cloud + cloud_speed cloud\<rparr>;
          (c, k1) = (if cloud_x moved > canvas_width g + cloud_size moved
                     then createCloud rnd g index True k
                     else (moved, k));
          (cs, k2) = updateCloudsFrom rnd g (index + 1) rest k1
      in (c # cs, k2))"

definition updateClouds :: "(nat \<Rightarrow> real) \<Rightarrow> Game \<Rightarrow> nat \<Rightarrow> Game \<times> nat" where
  "updateClouds rnd g k =
     (if \<not> enableClouds (animationSettings g) then (g, k)
      else
        (let g1 = g\<lparr>cloudOffset := cloudOffset g + 0.2\<rparr>;
             (cs, k') = updateCloudsFrom rnd g1 0 (clouds g1) k
         in (g1\<lparr>clouds := cs\<rparr>, k')))"

text \<open>The constructor: \<open>fps\<close> is \<open>config.fps\<close> (absent or 0 gives 30), \<open>dnow\<close> is
  \<open>Date.now()\<close>.\<close>

definition newGame :: "(nat \<Rightarrow> real) \<Rightarrow> real \<Rightarrow> real \<Rightarrow> real option \<Rightarrow> int \<Rightarrow> nat \<Rightarrow> Game \<times> nat" where
  "newGame rnd width height fps dnow k =
     initializeClouds rnd
       \<lparr>canvas_width = width, canvas_height = height, animationFrame = None,
        lastFrameTime = 0,
        frameThrottle = 1000 / (case fps of None \<Rightarrow> 30 | Some f \<Rightarrow> if f = 0 then 30 else f),
        movementCooldown = False,
        state = \<lparr>position = \<lparr>pos_x = 2, pos_y = 2\<rparr>, facing = Down, isMoving = False,
                 terrain = G, status = STATUS_IDLE, message = [], isStarted = False,
                 idleState = ACTIVE, lastActivityTime = dnow\<rparr>,
        isRunning = False, g_currentTerrain = G, riverOffset = 0,
        animationSettings = \<lparr>enableClouds = False, enableWaves = False, enableRiver = False\<rparr>,
        g_terrainMap = None, clouds = [], cloudOffset = 0, waterOffset = 0,
        lastAnimationUpdate = 0\<rparr> k"

definition handleStateUpdate :: "Game \<Rightarrow> Game" where
  "handleStateUpdate g = g\<lparr>g_currentTerrain := terrain (state g)\<rparr>"

text \<open>The handler that \<open>setupWorker\<close> installs. A message is truthy when present and not
  empty; the spread takes every \<open>GameState\<close> property from the worker's snapshot.\<close>

definition workerOnmessage :: "WorkerResponse \<Rightarrow> Game \<Rightarrow> Game" where
  "workerOnmessage r g =
     (let msg = (case r_message r of None \<Rightarrow> None | Some m \<Rightarrow> if m = [] then None else Some m);
          g1 = (case r_gameState r of
                  None \<Rightarrow> g
                | Some gs \<Rightarrow>
                    handleStateUpdate
                      (g\<lparr>state := (GameState.truncate gs)
                                     \<lparr>message := (case msg of Some m \<Rightarrow> m
                                                  | None \<Rightarrow> message (state g))\<rparr>\<rparr>));
          g2 = (case r_terrainMap r of None \<Rightarrow> g1 | Some tm \<Rightarrow> g1\<lparr>g_terrainMap := Some tm\<rparr>)
      in case msg of
           None \<Rightarrow> g2
         | Some m \<Rightarrow> handleStateUpdate (g2\<lparr>state := (state g2)\<lparr>message := m\<rparr>\<rparr>))"

definition getFrameThrottleForState :: "IdleStateType \<Rightarrow> real" where
  "getFrameThrottleForState st =
     (case st of
        RESTING \<Rightarrow> 1000 / 20
      | IDLE \<Rightarrow> 1000 / 10
      | SLEEPING \<Rightarrow> 1000 / 5
      | _ \<Rightarrow> 1000 / 30)"

text \<open>\<open>a % b\<close>: the remainder has the sign of \<open>a\<close>.\<close>

definition jsRem :: "real \<Rightarrow> real \<Rightarrow> real" where
  "jsRem a b = a - b * of_int (if a / b < 0 then \<lceil>a / b\<rceil> else \<lfloor>a / b\<rfloor>)"

text \<open>\<open>update\<close>: \<open>pnow\<close> is \<open>performance.now()\<close>, \<open>dnow\<close> is \<open>Date.now()\<close>.\<close>

definition update :: "(nat \<Rightarrow> real) \<Rightarrow> real \<Rightarrow> int \<Rightarrow> real \<Rightarrow> Game \<Rightarrow> nat \<Rightarrow> Game \<times> nat" where
  "update rnd pnow dnow delta g k =
     (let g1 = (if isMoving (state g)
                then g\<lparr>state := (state g)\<lparr>lastActivityTime := dnow, idleState := ACTIVE\<rparr>\<rparr>
                else g)
      in if pnow - lastAnimationUpdate g1 > 16 then
           (let (g2, k2) = updateClouds rnd g1 k;
                g3 = (if enableWaves (animationSettings g2)
                      then g2\<lparr>waterOffset := jsRem (pnow / 1000) (pi * 2)\<rparr> else g2);
                g4 = (if enableRiver (animationSettings g3)
                      then g3\<lparr>riverOffset := jsRem (pnow / 800) (pi * 2)\<rparr> else g3)
            in (g4\<lparr>lastAnimationUpdate := pnow\<rparr>, k2))
         else (g1, k))"

text \<open>One call of \<open>gameLoop(timestamp)\<close>. The first component tells whether \<open>render()\<close> was
  called; \<open>handle\<close> is what \<open>requestAnimationFrame\<close> returns.\<close>

definition gameLoop ::
  "(nat \<Rightarrow> real) \<Rightarrow> real \<Rightarrow> real \<Rightarrow> int \<Rightarrow> nat \<Rightarrow> Game \<Rightarrow> nat \<Rightarrow> bool \<times> Game \<times> nat" where
  "gameLoop rnd timestamp pnow dnow handle g k =
     (if \<not> isRunning g then (False, g, k)
      else
        (let delta = timestamp - lastFrameTime g;
             (g1, k1) = update rnd pnow dnow delta g k;
             (rendered, g2) = (if delta \<ge> frameThrottle g1
                               then (True, g1\<lparr>lastFrameTime := timestamp\<rparr>)
                               else (False, g1))
         in (rendered, g2\<lparr>animationFrame := Some handle\<rparr>, k1)))"

text \<open>\<open>start()\<close> calls \<open>gameLoop()\<close>, whose \<open>timestamp\<close> defaults to 0. The \<open>START\<close> message that
  it sends to the worker is an input of the worker above.\<close>

definition start :: "(nat \<Rightarrow> real) \<Rightarrow> real \<Rightarrow> int \<Rightarrow> nat \<Rightarrow> Game \<Rightarrow> nat \<Rightarrow> bool \<times> Game \<times> nat" where
  "start rnd pnow dnow handle g k = gameLoop rnd 0 pnow dnow handle (g\<lparr>isRunning := True\<rparr>) k"

definition stop :: "Game \<Rightarrow> Game" where
  "stop g = g\<lparr>isRunning := False\<rparr>"

text \<open>\<open>handleResize\<close>, with the new canvas size already multiplied out.\<close>

definition handleResize :: "(nat \<Rightarrow> real) \<Rightarrow> real \<Rightarrow> real \<Rightarrow> Game \<Rightarrow> nat \<Rightarrow> Game \<times> nat" where
  "handleResize rnd width height g k =
     initializeClouds rnd (g\<lparr>canvas_width := width, canvas_height := height\<rparr>) k"

text \<open>\<open>setAnimationSettings\<close>: the spread overrides the properties that the argument has;
  \<open>!settings.enableClouds\<close> holds when the property is absent or false.\<close>

definition setAnimationSettings ::
  "(nat \<Rightarrow> real) \<Rightarrow> AnimationSettingsArg \<Rightarrow> Game \<Rightarrow> nat \<Rightarrow> Game \<times> nat" where
  "setAnimationSettings rnd settings g k =
     (let old = animationSettings g;
          g1 = g\<lparr>animationSettings :=
                  \<lparr>enableClouds = (case arg_enableClouds settings of Some b \<Rightarrow> b
                                    | None \<Rightarrow> enableClouds old),
                   enableWaves = (case arg_enableWaves settings of Some b \<Rightarrow> b
                                   | None \<Rightarrow> enableWaves old),
                   enableRiver = (case arg_enableRiver settings of Some b \<Rightarrow> b
                                   | None \<Rightarrow> enableRiver old)\<rparr>\<rparr>;
          (g2, k2) = (if arg_enableClouds settings \<noteq> Some True
                      then initializeClouds rnd (g1\<lparr>cloudOffset := 0\<rparr>) k
                      else (g1, k));
          g3 = (if arg_enableWaves settings \<noteq> Some True then g2\<lparr>waterOffset := 0\<rparr> else g2);
          g4 = (if arg_enableRiver settings \<noteq> Some True then g3\<lparr>riverOffset := 0\<rparr> else g3)
      in (g4, k2))"

text \<open>What can happen to a \<open>Game\<close> after its construction.\<close>

datatype GameInput =
    Start real int nat
  | Stop
  | Frame real real int nat
  | Resize real real
  | Settings AnimationSettingsArg
  | FromWorker WorkerResponse

fun gameStep :: "(nat \<Rightarrow> real) \<Rightarrow> GameInput \<Rightarrow> Game \<times> nat \<Rightarrow> Game \<times> nat" where
  "gameStep rnd (Start pnow dnow handle) (g, k) = snd (start rnd pnow dnow handle g k)"
| "gameStep rnd Stop (g, k) = (stop g, k)"
| "gameStep rnd (Frame timestamp pnow dnow handle) (g, k) =
     snd (gameLoop rnd timestamp pnow dnow handle g k)"
| "gameStep rnd (Resize width height) (g, k) = handleResize rnd width height g k"
| "gameStep rnd (Settings settings) (g, k) = setAnimationSettings rnd settings g k"
| "gameStep rnd (FromWorker r) (g, k) = (workerOnmessage r g, k)"

fun gameRun :: "(nat \<Rightarrow> real) \<Rightarrow> GameInput list \<Rightarrow> Game \<times> nat \<Rightarrow> Game \<times> nat" where
  "gameRun rnd [] gk = gk"
| "gameRun rnd (i # is) gk = gameRun rnd is (gameStep rnd i gk)"

section \<open>Facts about the reference map\<close>

lemma terrainMap_length: "length terrainMap = 15"
  by (simp add: terrainMap_def)

lemma terrainMap_row0_length: "length (terrainMap ! 0) = 20"
  by (simp add: terrainMap_def)

lemma terrainMap_rows: "\<forall>row \<in> set terrainMap. length row = 20"
  by (simp add: terrainMap_def)

lemma isInBounds_iff:
  "isInBounds p \<longleftrightarrow> 0 \<le> pos_x p \<and> pos_x p < 20 \<and> 0 \<le> pos_y p \<and> pos_y p < 15"
  by (simp add: isInBounds_def terrainMap_length terrainMap_row0_length)

lemma cellAt_inBounds:
  assumes "isInBounds p"
  shows "cellAt p = Inr (Some (terrainMap ! nat (pos_y p) ! nat (pos_x p)))"
proof -
  from assms have b: "0 \<le> pos_x p" "pos_x p < 20" "0 \<le> pos_y p" "pos_y p < 15"
    by (simp_all add: isInBounds_iff)
  then have "nat (pos_y p) < length terrainMap"
    by (simp add: terrainMap_length)
  then have "terrainMap ! nat (pos_y p) \<in> set terrainMap"
    by (rule nth_mem)
  then have "length (terrainMap ! nat (pos_y p)) = 20"
    using terrainMap_rows by blast
  with b show ?thesis
    by (simp add: cellAt_def jsIndex_def terrainMap_length)
qed

lemma canMove_eq:
  "canMove q =
     Inr (isInBounds q \<and>
          walkable (terrainProperties (terrainMap ! nat (pos_y q) ! nat (pos_x q))))"
  by (simp add: canMove_def cellAt_inBounds)

lemma moveTarget_neq: "moveTarget d p = Some q \<Longrightarrow> q \<noteq> p"
  by (cases d; cases p; cases q) auto

section \<open>Movement\<close>

text \<open>The two outcomes of \<open>handleMovement\<close> from a position on the map, written out.\<close>

lemma handleMovement_blocked:
  assumes "isInBounds (position (gameState w))"
      and "moveTarget d (position (gameState w)) = Some q"
      and "canMove q = Inr False"
  shows "handleMovement now d w =
     (let msg = blockedText d
                  (if isInBounds q then terrainNames (terrainMap ! nat (pos_y q) ! nat (pos_x q))
                   else ''boundary'');
          gs2 = (gameState w)\<lparr>lastActivityTime := now, idleState := ACTIVE, facing := d,
                              message := msg\<rparr>
      in (None, w\<lparr>gameState := gs2,
                  posted := posted w @
                    [\<lparr>r_status = STATUS_ERROR, r_message = Some msg, r_gameState = Some gs2,
                      r_terrainMap = Some terrainMap, r_step = None, r_total = None,
                      r_result = None\<rparr>]\<rparr>))"
  using assms
  by (simp add: handleMovement_def cellAt_inBounds postMessage_def emptyResponse_def Let_def)

lemma handleMovement_moved:
  assumes "isInBounds (position (gameState w))"
      and "moveTarget d (position (gameState w)) = Some q"
      and "canMove q = Inr True"
  shows "handleMovement now d w =
     (let new = terrainMap ! nat (pos_y q) ! nat (pos_x q);
          msg = movedText d
                  (Some (terrainMap ! nat (pos_y (position (gameState w))) !
                           nat (pos_x (position (gameState w)))))
                  (Some new);
          gs2 = (gameState w)\<lparr>lastActivityTime := now, idleState := ACTIVE, facing := d,
                   position := q, currentTerrain := new, terrain := new, message := msg\<rparr>
      in (None, w\<lparr>gameState := gs2,
                  posted := posted w @
                    [\<lparr>r_status = STATUS_PROCESSING, r_message = Some msg, r_gameState = Some gs2,
                      r_terrainMap = Some terrainMap, r_step = None, r_total = None,
                      r_result = None\<rparr>]\<rparr>))"
proof -
  from assms(3) have "isInBounds q"
    by (simp add: canMove_eq)
  with assms show ?thesis
    by (simp add: handleMovement_def cellAt_inBounds postMessage_def emptyResponse_def Let_def)
qed

text \<open>What \<open>handleMovement\<close> does with the target \<open>q\<close> that its \<open>switch\<close> computes.\<close>

lemma handleMovement_target_outcome:
  assumes "isInBounds (position (gameState w))"
      and "moveTarget d (position (gameState w)) = Some q"
  shows "fst (handleMovement now d w) = None \<and>
         (position (gameState (snd (handleMovement now d w))) = q \<longleftrightarrow>
            isInBounds q \<and> (\<exists>t. cellAt q = Inr (Some t) \<and> walkable (terrainProperties t))) \<and>
         (if isInBounds q \<and> (\<exists>t. cellAt q = Inr (Some t) \<and> walkable (terrainProperties t))
          then \<exists>r. posted (snd (handleMovement now d w)) = posted w @ [r] \<and>
                   r_status r = STATUS_PROCESSING
          else position (gameState (snd (handleMovement now d w))) = position (gameState w) \<and>
               (\<exists>r. posted (snd (handleMovement now d w)) = posted w @ [r] \<and>
                    r_status r = STATUS_ERROR))"
proof (cases "canMove q = Inr True")
  case True
  then have "isInBounds q \<and> (\<exists>t. cellAt q = Inr (Some t) \<and> walkable (terrainProperties t))"
    by (simp add: canMove_eq cellAt_inBounds)
  then show ?thesis
    by (simp add: handleMovement_moved [OF assms True] Let_def)
next
  case False
  then have blocked: "canMove q = Inr False"
    by (simp add: canMove_eq)
  then have "\<not> (isInBounds q \<and> (\<exists>t. cellAt q = Inr (Some t) \<and> walkable (terrainProperties t)))"
    by (auto simp add: canMove_eq cellAt_inBounds)
  with moveTarget_neq [OF assms(2)] show ?thesis
    by (simp add: handleMovement_blocked [OF assms blocked] Let_def)
qed

text \<open>Some cells of the map.\<close>

lemma cells:
  "cellAt \<lparr>pos_x = 2, pos_y = 1\<rparr> = Inr (Some B)"
  "cellAt \<lparr>pos_x = 2, pos_y = 3\<rparr> = Inr (Some G)"
  "cellAt \<lparr>pos_x = 1, pos_y = 2\<rparr> = Inr (Some B)"
  "cellAt \<lparr>pos_x = 3, pos_y = 2\<rparr> = Inr (Some G)"
  "cellAt \<lparr>pos_x = 0, pos_y = 2\<rparr> = Inr (Some W)"
  "cellAt \<lparr>pos_x = 2, pos_y = 13\<rparr> = Inr (Some B)"
  "cellAt \<lparr>pos_x = 2, pos_y = 14\<rparr> = Inr (Some W)"
  by (simp_all add: cellAt_def jsIndex_def terrainMap_def)

text \<open>
  C1. Let the player be at a position \<open>p\<close> of the 20 by 15 map, and let \<open>q\<close> be \<open>p\<close> plus the
  unit step of the direction \<open>d\<close>: one row up for up, one row down for down, one column to
  the left for left, one to the right for right. Then \<open>handleMovement d\<close> throws nothing, and
  the position becomes \<open>q\<close> if and only if \<open>q\<close> is in bounds and the terrain there is walkable;
  then a processing message is posted. Otherwise the position stays \<open>p\<close> and a message with
  status \<open>STATUS_ERROR\<close> is posted.
\<close>

theorem handleMovement_moves_iff_walkable:
  assumes "isInBounds p" and "position (gameState w) = p"
      and "(d, q) \<in> {(Up, p\<lparr>pos_y := pos_y p - 1\<rparr>), (Down, p\<lparr>pos_y := pos_y p + 1\<rparr>),
                     (Left, p\<lparr>pos_x := pos_x p - 1\<rparr>), (Right, p\<lparr>pos_x := pos_x p + 1\<rparr>)}"
  shows "fst (handleMovement now d w) = None \<and>
         (position (gameState (snd (handleMovement now d w))) = q \<longleftrightarrow>
            isInBounds q \<and> (\<exists>t. cellAt q = Inr (Some t) \<and> walkable (terrainProperties t))) \<and>
         (if isInBounds q \<and> (\<exists>t. cellAt q = Inr (Some t) \<and> walkable (terrainProperties t))
          then \<exists>r. posted (snd (handleMovement now d w)) = posted w @ [r] \<and>
                   r_status r = STATUS_PROCESSING
          else position (gameState (snd (handleMovement now d w))) = p \<and>
               (\<exists>r. posted (snd (handleMovement now d w)) = posted w @ [r] \<and>
                    r_status r = STATUS_ERROR))"
proof -
  from assms(3) have "moveTarget d p = Some q"
    by auto
  with assms(1,2) have "isInBounds (position (gameState w))"
    "moveTarget d (position (gameState w)) = Some q"
    by simp_all
  from handleMovement_target_outcome [OF this, of now] assms(2) show ?thesis
    by simp
qed

text \<open>
  From the spawn cell (2,2) each of the four moves reaches the neighbouring cell; from
  (1,2), which the move to the left reaches, a further move to the left is blocked by the
  border water and the player stays.
\<close>

theorem handleMovement_moves_iff_walkable_witness:
  "isInBounds \<lparr>pos_x = 2, pos_y = 2\<rparr> \<and>
   position (gameState (initialWorker 0)) = \<lparr>pos_x = 2, pos_y = 2\<rparr> \<and>
   position (gameState (snd (handleMovement 5 Up (initialWorker 0)))) = \<lparr>pos_x = 2, pos_y = 1\<rparr> \<and>
   position (gameState (snd (handleMovement 5 Down (initialWorker 0)))) = \<lparr>pos_x = 2, pos_y = 3\<rparr> \<and>
   position (gameState (snd (handleMovement 5 Left (initialWorker 0)))) = \<lparr>pos_x = 1, pos_y = 2\<rparr> \<and>
   position (gameState (snd (handleMovement 5 Right (initialWorker 0)))) = \<lparr>pos_x = 3, pos_y = 2\<rparr> \<and>
   isInBounds \<lparr>pos_x = 1, pos_y = 2\<rparr> \<and>
   position (gameState (snd (handleMovement 6 Left (snd (handleMovement 5 Left (initialWorker 0)))))) =
     \<lparr>pos_x = 1, pos_y = 2\<rparr>"
proof -
  let ?p = "\<lparr>pos_x = 2, pos_y = 2\<rparr>"
  have h1: "isInBounds ?p"
    by (simp add: isInBounds_iff)
  have h2: "position (gameState (initialWorker 0)) = ?p"
    by (simp add: initialWorker_def)
  have inb: "isInBounds \<lparr>pos_x = 2, pos_y = 1\<rparr>" "isInBounds \<lparr>pos_x = 2, pos_y = 3\<rparr>"
    "isInBounds \<lparr>pos_x = 1, pos_y = 2\<rparr>" "isInBounds \<lparr>pos_x = 3, pos_y = 2\<rparr>"
    "isInBounds \<lparr>pos_x = 0, pos_y = 2\<rparr>"
    by (simp_all add: isInBounds_iff)
  have up: "position (gameState (snd (handleMovement 5 Up (initialWorker 0)))) =
      \<lparr>pos_x = 2, pos_y = 1\<rparr>"
    using handleMovement_moves_iff_walkable [OF h1 h2, of Up "\<lparr>pos_x = 2, pos_y = 1\<rparr>" 5] inb
    by (simp add: cells)
  have down: "position (gameState (snd (handleMovement 5 Down (initialWorker 0)))) =
      \<lparr>pos_x = 2, pos_y = 3\<rparr>"
    using handleMovement_moves_iff_walkable [OF h1 h2, of Down "\<lparr>pos_x = 2, pos_y = 3\<rparr>" 5] inb
    by (simp add: cells)
  have left: "position (gameState (snd (handleMovement 5 Left (initialWorker 0)))) =
      \<lparr>pos_x = 1, pos_y = 2\<rparr>"
    using handleMovement_moves_iff_walkable [OF h1 h2, of Left "\<lparr>pos_x = 1, pos_y = 2\<rparr>" 5] inb
    by (simp add: cells)
  have right: "position (gameState (snd (handleMovement 5 Right (initialWorker 0)))) =
      \<lparr>pos_x = 3, pos_y = 2\<rparr>"
    using handleMovement_moves_iff_walkable [OF h1 h2, of Right "\<lparr>pos_x = 3, pos_y = 2\<rparr>" 5] inb
    by (simp add: cells)
  have stay: "position (gameState (snd (handleMovement 6 Left
      (snd (handleMovement 5 Left (initialWorker 0)))))) = \<lparr>pos_x = 1, pos_y = 2\<rparr>"
    using handleMovement_moves_iff_walkable [OF inb(3) left, of Left "\<lparr>pos_x = 0, pos_y = 2\<rparr>" 6] inb
    by (simp add: cells)
  from h1 h2 inb(3) up down left right stay show ?thesis
    by simp
qed

section \<open>Messages to the worker\<close>

lemma onmessage_move:
  assumes "task m = MESSAGE_GAME_UPDATE" and "direction m = Some d"
  shows "onmessage now now2 m w =
     (case handleMovement now2 d (w\<lparr>gameState := (gameState w)\<lparr>lastActivityTime := now\<rparr>\<rparr>) of
        (None, w') \<Rightarrow> w'
      | (Some e, w') \<Rightarrow>
          postMessage ((emptyResponse STATUS_ERROR)\<lparr>r_message := Some (exnMessage e)\<rparr>) w')"
  using assms
  by (simp add: onmessage_def Let_def MESSAGE_START_def MESSAGE_GAME_UPDATE_def)

lemma onmessage_blocked:
  assumes "isInBounds (position (gameState w))"
      and "moveTarget d (position (gameState w)) = Some q"
      and "canMove q = Inr False"
  shows "onmessage now now2 (moveMessage d) w =
     (let msg = blockedText d
                  (if isInBounds q then terrainNames (terrainMap ! nat (pos_y q) ! nat (pos_x q))
                   else ''boundary'');
          gs2 = (gameState w)\<lparr>lastActivityTime := now2, idleState := ACTIVE, facing := d,
                              message := msg\<rparr>
      in w\<lparr>gameState := gs2,
           posted := posted w @
             [\<lparr>r_status = STATUS_ERROR, r_message = Some msg, r_gameState = Some gs2,
               r_terrainMap = Some terrainMap, r_step = None, r_total = None,
               r_result = None\<rparr>]\<rparr>)"
proof -
  let ?w = "w\<lparr>gameState := (gameState w)\<lparr>lastActivityTime := now\<rparr>\<rparr>"
  have a: "isInBounds (position (gameState ?w))"
    using assms(1) by simp
  have b: "moveTarget d (position (gameState ?w)) = Some q"
    using assms(2) by simp
  show ?thesis
    by (simp add: onmessage_move moveMessage_def handleMovement_blocked [OF a b assms(3)] Let_def)
qed

lemma handleMovement_position:
  "position (gameState (snd (handleMovement now d w))) = position (gameState w) \<or>
   canMove (position (gameState (snd (handleMovement now d w)))) = Inr True"
  by (simp add: handleMovement_def postMessage_def Let_def
      split: option.split sum.split bool.split)

lemma onmessage_position:
  "position (gameState (onmessage now now2 m w)) = position (gameState w) \<or>
   canMove (position (gameState (onmessage now now2 m w))) = Inr True"
proof -
  let ?w = "w\<lparr>gameState := (gameState w)\<lparr>lastActivityTime := now\<rparr>\<rparr>"
  show ?thesis
  proof (cases "task m = MESSAGE_GAME_UPDATE \<and> direction m \<noteq> None")
    case True
    then obtain d where d: "direction m = Some d" and t: "task m = MESSAGE_GAME_UPDATE"
      by auto
    obtain e w' where hm: "handleMovement now2 d ?w = (e, w')"
      by (cases "handleMovement now2 d ?w")
    with handleMovement_position [of now2 d ?w] show ?thesis
      by (cases e) (simp_all add: onmessage_move [OF t d] postMessage_def)
  next
    case False
    then show ?thesis
      by (auto simp add: onmessage_def postMessage_def handleGameStart_def startIdleCheck_def
          Let_def split: option.split)
  qed
qed

lemma idleCheck_position: "position (gameState (idleCheck now w)) = position (gameState w)"
  by (simp add: idleCheck_def Let_def postMessage_def)

lemma handleMovement_idleState:
  "idleState (gameState (snd (handleMovement now d w))) = ACTIVE"
  by (simp add: handleMovement_def postMessage_def Let_def
      split: option.split sum.split bool.split)

lemma idleCheck_idleState:
  "idleState (gameState (idleCheck now w)) = newIdleStateFor (now - lastActivityTime (gameState w))"
  by (simp add: idleCheck_def Let_def postMessage_def)

lemma idleCheck_lastActivityTime:
  "lastActivityTime (gameState (idleCheck now w)) = lastActivityTime (gameState w)"
  by (simp add: idleCheck_def Let_def postMessage_def)

section \<open>Blocked moves\<close>

lemma repeated_blocked:
  assumes "isInBounds (position (gameState w))"
      and "moveTarget d (position (gameState w)) = Some q"
      and "canMove q = Inr False"
  shows "position (gameState (workerRun (map (\<lambda>(now, now2). Incoming now now2 (moveMessage d)) clock) w)) =
           position (gameState w) \<and>
         (\<exists>rs. posted (workerRun (map (\<lambda>(now, now2). Incoming now now2 (moveMessage d)) clock) w) =
                  posted w @ rs \<and>
               map r_status rs = replicate (length clock) STATUS_ERROR \<and>
               map r_message rs = replicate (length clock)
                 (Some (blockedText d
                    (if isInBounds q then terrainNames (terrainMap ! nat (pos_y q) ! nat (pos_x q))
                     else ''boundary''))))"
  using assms
proof (induction clock arbitrary: w)
  case Nil
  then show ?case by simp
next
  case (Cons c clock)
  obtain now now2 where c: "c = (now, now2)"
    by (cases c)
  let ?msg = "blockedText d
                  (if isInBounds q then terrainNames (terrainMap ! nat (pos_y q) ! nat (pos_x q))
                   else ''boundary'')"
  let ?w1 = "onmessage now now2 (moveMessage d) w"
  obtain r where r: "posted ?w1 = posted w @ [r]" "r_status r = STATUS_ERROR"
      "r_message r = Some ?msg"
    by (simp add: onmessage_blocked [OF Cons.prems] Let_def)
  have p1: "position (gameState ?w1) = position (gameState w)"
    by (simp add: onmessage_blocked [OF Cons.prems] Let_def)
  note q1 = r(1)
  have "isInBounds (position (gameState ?w1))" "moveTarget d (position (gameState ?w1)) = Some q"
    using Cons.prems by (simp_all add: p1)
  from Cons.IH [OF this Cons.prems(3)]
  obtain rs where rs:
    "position (gameState (workerRun (map (\<lambda>(now, now2). Incoming now now2 (moveMessage d)) clock) ?w1)) =
       position (gameState ?w1)"
    "posted (workerRun (map (\<lambda>(now, now2). Incoming now now2 (moveMessage d)) clock) ?w1) =
       posted ?w1 @ rs"
    "map r_status rs = replicate (length clock) STATUS_ERROR"
    "map r_message rs = replicate (length clock) (Some ?msg)"
    by blast
  have run: "workerRun (map (\<lambda>(now, now2). Incoming now now2 (moveMessage d)) (c # clock)) w =
      workerRun (map (\<lambda>(now, now2). Incoming now now2 (moveMessage d)) clock) ?w1"
    by (simp add: c)
  have "posted (workerRun (map (\<lambda>(now, now2). Incoming now now2 (moveMessage d)) (c # clock)) w) =
      posted w @ (r # rs)"
    by (simp only: run rs(2) q1) simp
  moreover have "map r_status (r # rs) = replicate (length (c # clock)) STATUS_ERROR"
    by (simp only: list.map r(2) rs(3)) simp
  moreover have "map r_message (r # rs) = replicate (length (c # clock)) (Some ?msg)"
    by (simp only: list.map r(3) rs(4)) simp
  moreover have "position (gameState
      (workerRun (map (\<lambda>(now, now2). Incoming now now2 (moveMessage d)) (c # clock)) w)) =
      position (gameState w)"
    by (simp only: run rs(1) p1)
  ultimately show ?case
    by blast
qed

text \<open>Repeated moves against a blocked target \<open>q\<close> of the \<open>switch\<close>.\<close>

lemma blocked_target_repeats:
  assumes "isInBounds (position (gameState w))"
      and "moveTarget d (position (gameState w)) = Some q"
      and "\<not> (isInBounds q \<and> (\<exists>t. cellAt q = Inr (Some t) \<and> walkable (terrainProperties t)))"
  shows "\<exists>msg rs.
           (if isInBounds q
            then \<exists>t. cellAt q = Inr (Some t) \<and>
                     msg = ''Cannot move '' @ directionText d @ '' - blocked by '' @ terrainNames t
            else msg = ''Cannot move '' @ directionText d @ '' - blocked by boundary'') \<and>
           position (gameState
             (workerRun (map (\<lambda>(now, now2). Incoming now now2 (moveMessage d)) clock) w)) =
             position (gameState w) \<and>
           posted (workerRun (map (\<lambda>(now, now2). Incoming now now2 (moveMessage d)) clock) w) =
             posted w @ rs \<and>
           map r_status rs = replicate (length clock) STATUS_ERROR \<and>
           map r_message rs = replicate (length clock) (Some msg)"
proof -
  from assms(3) have blocked: "canMove q = Inr False"
    by (auto simp add: canMove_eq cellAt_inBounds)
  let ?msg = "blockedText d
                  (if isInBounds q then terrainNames (terrainMap ! nat (pos_y q) ! nat (pos_x q))
                   else ''boundary'')"
  have form: "if isInBounds q
            then \<exists>t. cellAt q = Inr (Some t) \<and>
                     ?msg = ''Cannot move '' @ directionText d @ '' - blocked by '' @ terrainNames t
            else ?msg = ''Cannot move '' @ directionText d @ '' - blocked by boundary''"
    by (simp add: blockedText_def cellAt_inBounds)
  from repeated_blocked [OF assms(1,2) blocked, of clock] form show ?thesis
    by blast
qed

text \<open>
  C5. Let the player stand at a position \<open>p\<close> of the map, let \<open>q\<close> be \<open>p\<close> plus the unit step
  of the direction \<open>d\<close> (up, down, left or right), and let \<open>q\<close> be out of bounds or not
  walkable. Then any number of move messages for \<open>d\<close>, whatever the clock reads, leaves the
  position \<open>p\<close>, and each of them posts one message with status \<open>STATUS_ERROR\<close> and the same
  text: \<open>Cannot move d - blocked by\<close> followed by the name of the terrain at \<open>q\<close> when \<open>q\<close> is in
  bounds, and by \<open>boundary\<close> when it is not.
\<close>

theorem blocked_move_repeats:
  assumes "isInBounds p" and "position (gameState w) = p"
      and "(d, q) \<in> {(Up, p\<lparr>pos_y := pos_y p - 1\<rparr>), (Down, p\<lparr>pos_y := pos_y p + 1\<rparr>),
                     (Left, p\<lparr>pos_x := pos_x p - 1\<rparr>), (Right, p\<lparr>pos_x := pos_x p + 1\<rparr>)}"
      and "\<not> (isInBounds q \<and> (\<exists>t. cellAt q = Inr (Some t) \<and> walkable (terrainProperties t)))"
  shows "\<exists>msg rs.
           (if isInBounds q
            then \<exists>t. cellAt q = Inr (Some t) \<and>
                     msg = ''Cannot move '' @ directionText d @ '' - blocked by '' @ terrainNames t
            else msg = ''Cannot move '' @ directionText d @ '' - blocked by boundary'') \<and>
           position (gameState
             (workerRun (map (\<lambda>(now, now2). Incoming now now2 (moveMessage d)) clock) w)) = p \<and>
           posted (workerRun (map (\<lambda>(now, now2). Incoming now now2 (moveMessage d)) clock) w) =
             posted w @ rs \<and>
           map r_status rs = replicate (length clock) STATUS_ERROR \<and>
           map r_message rs = replicate (length clock) (Some msg)"
proof -
  from assms(3) have "moveTarget d p = Some q"
    by auto
  with assms(1,2) have "isInBounds (position (gameState w))"
    "moveTarget d (position (gameState w)) = Some q"
    by simp_all
  from blocked_target_repeats [OF this assms(4), of clock] assms(2) show ?thesis
    by simp
qed

text \<open>
  Three blocked moves, each sent twice: to the left from (1,2) and down from (2,13), both
  into border water, and up from the corner (0,0), out of the map.
\<close>

theorem blocked_move_repeats_witness:
  "isInBounds \<lparr>pos_x = 1, pos_y = 2\<rparr> \<and> isInBounds \<lparr>pos_x = 2, pos_y = 13\<rparr> \<and>
   isInBounds \<lparr>pos_x = 0, pos_y = 0\<rparr> \<and> \<not> isInBounds \<lparr>pos_x = 0, pos_y = - 1\<rparr> \<and>
   cellAt \<lparr>pos_x = 0, pos_y = 2\<rparr> = Inr (Some W) \<and>
   cellAt \<lparr>pos_x = 2, pos_y = 14\<rparr> = Inr (Some W) \<and>
   map r_message (posted (workerRun
       [Incoming 1 2 (moveMessage Left), Incoming 3 4 (moveMessage Left)]
       ((initialWorker 0)\<lparr>gameState :=
          (gameState (initialWorker 0))\<lparr>position := \<lparr>pos_x = 1, pos_y = 2\<rparr>\<rparr>\<rparr>))) =
     [Some ''Cannot move left - blocked by Water'', Some ''Cannot move left - blocked by Water''] \<and>
   map r_message (posted (workerRun
       [Incoming 1 2 (moveMessage Down), Incoming 3 4 (moveMessage Down)]
       ((initialWorker 0)\<lparr>gameState :=
          (gameState (initialWorker 0))\<lparr>position := \<lparr>pos_x = 2, pos_y = 13\<rparr>\<rparr>\<rparr>))) =
     [Some ''Cannot move down - blocked by Water'', Some ''Cannot move down - blocked by Water''] \<and>
   map r_message (posted (workerRun
       [Incoming 1 2 (moveMessage Up), Incoming 3 4 (moveMessage Up)]
       ((initialWorker 0)\<lparr>gameState :=
          (gameState (initialWorker 0))\<lparr>position := \<lparr>pos_x = 0, pos_y = 0\<rparr>\<rparr>\<rparr>))) =
     [Some ''Cannot move up - blocked by boundary'', Some ''Cannot move up - blocked by boundary'']"
proof -
  let ?at = "\<lambda>p. (initialWorker 0)\<lparr>gameState := (gameState (initialWorker 0))\<lparr>position := p\<rparr>\<rparr>"
  have inb: "isInBounds \<lparr>pos_x = 1, pos_y = 2\<rparr>" "isInBounds \<lparr>pos_x = 2, pos_y = 13\<rparr>"
    "isInBounds \<lparr>pos_x = 0, pos_y = 0\<rparr>" "isInBounds \<lparr>pos_x = 0, pos_y = 2\<rparr>"
    "isInBounds \<lparr>pos_x = 2, pos_y = 14\<rparr>" "\<not> isInBounds \<lparr>pos_x = 0, pos_y = - 1\<rparr>"
    by (simp_all add: isInBounds_iff)
  have posted0: "posted (?at p) = []" for p
    by (simp add: initialWorker_def)
  have left: "map r_message (posted (workerRun
       [Incoming 1 2 (moveMessage Left), Incoming 3 4 (moveMessage Left)]
       (?at \<lparr>pos_x = 1, pos_y = 2\<rparr>))) =
     [Some ''Cannot move left - blocked by Water'', Some ''Cannot move left - blocked by Water'']"
    using blocked_move_repeats [OF inb(1), of "?at \<lparr>pos_x = 1, pos_y = 2\<rparr>" Left
        "\<lparr>pos_x = 0, pos_y = 2\<rparr>" "[(1, 2), (3, 4)]"] inb
    by (auto simp add: cells posted0)
  have down: "map r_message (posted (workerRun
       [Incoming 1 2 (moveMessage Down), Incoming 3 4 (moveMessage Down)]
       (?at \<lparr>pos_x = 2, pos_y = 13\<rparr>))) =
     [Some ''Cannot move down - blocked by Water'', Some ''Cannot move down - blocked by Water'']"
    using blocked_move_repeats [OF inb(2), of "?at \<lparr>pos_x = 2, pos_y = 13\<rparr>" Down
        "\<lparr>pos_x = 2, pos_y = 14\<rparr>" "[(1, 2), (3, 4)]"] inb
    by (auto simp add: cells posted0)
  have up: "map r_message (posted (workerRun
       [Incoming 1 2 (moveMessage Up), Incoming 3 4 (moveMessage Up)]
       (?at \<lparr>pos_x = 0, pos_y = 0\<rparr>))) =
     [Some ''Cannot move up - blocked by boundary'', Some ''Cannot move up - blocked by boundary'']"
    using blocked_move_repeats [OF inb(3), of "?at \<lparr>pos_x = 0, pos_y = 0\<rparr>" Up
        "\<lparr>pos_x = 0, pos_y = - 1\<rparr>" "[(1, 2), (3, 4)]"] inb
    by (auto simp add: posted0)
  from inb left down up show ?thesis
    by (simp add: cells)
qed

section \<open>The border of the map\<close>

lemma border_rows: "set (terrainMap ! 0) = {W}" "set (terrainMap ! 14) = {W}"
  by (simp_all add: terrainMap_def)

lemma border_columns: "\<forall>row \<in> set terrainMap. row ! 0 = W \<and> row ! 19 = W"
  by (simp add: terrainMap_def)

lemma border_is_water:
  assumes "isInBounds p"
      and "pos_x p = 0 \<or> pos_x p = 19 \<or> pos_y p = 0 \<or> pos_y p = 14"
  shows "terrainMap ! nat (pos_y p) ! nat (pos_x p) = W"
proof -
  from assms(1) have b: "0 \<le> pos_x p" "pos_x p < 20" "0 \<le> pos_y p" "pos_y p < 15"
    by (simp_all add: isInBounds_iff)
  then have row: "terrainMap ! nat (pos_y p) \<in> set terrainMap"
    by (simp add: terrainMap_length)
  then have len: "length (terrainMap ! nat (pos_y p)) = 20"
    using terrainMap_rows by blast
  from assms(2) consider "pos_x p = 0" | "pos_x p = 19" | "pos_y p = 0" | "pos_y p = 14"
    by blast
  then show ?thesis
  proof cases
    case 1
    with row border_columns show ?thesis by simp
  next
    case 2
    with row border_columns show ?thesis by simp
  next
    case 3
    have "terrainMap ! 0 ! nat (pos_x p) \<in> set (terrainMap ! 0)"
      using b by (simp add: terrainMap_row0_length)
    with 3 show ?thesis by (simp add: border_rows)
  next
    case 4
    have "terrainMap ! 14 ! nat (pos_x p) \<in> set (terrainMap ! 14)"
      using b len 4 by simp
    with 4 show ?thesis by (simp add: border_rows)
  qed
qed

lemma canMove_interior:
  assumes "canMove p = Inr True"
  shows "1 \<le> pos_x p \<and> pos_x p \<le> 18 \<and> 1 \<le> pos_y p \<and> pos_y p \<le> 13"
proof -
  from assms have inb: "isInBounds p"
    and w: "walkable (terrainProperties (terrainMap ! nat (pos_y p) ! nat (pos_x p)))"
    by (simp_all add: canMove_eq)
  have "\<not> (pos_x p = 0 \<or> pos_x p = 19 \<or> pos_y p = 0 \<or> pos_y p = 14)"
    using border_is_water [OF inb] w by auto
  with inb show ?thesis
    by (simp add: isInBounds_iff)
qed

lemma workerStep_canMove:
  assumes "canMove (position (gameState w)) = Inr True"
  shows "canMove (position (gameState (workerStep i w))) = Inr True"
proof (cases i)
  case (Incoming now now2 m)
  with assms onmessage_position [of now now2 m w] show ?thesis by auto
next
  case (IdleTimer now)
  with assms show ?thesis by (simp add: idleCheck_position)
qed

lemma workerRun_canMove:
  "canMove (position (gameState w)) = Inr True \<Longrightarrow>
   canMove (position (gameState (workerRun is w))) = Inr True"
  by (induction "is" arbitrary: w) (simp_all add: workerStep_canMove)

lemma initialWorker_canMove: "canMove (position (gameState (initialWorker t0))) = Inr True"
  by (simp add: canMove_eq isInBounds_iff initialWorker_def) (simp add: terrainMap_def)

lemma moveTarget_inBounds:
  assumes "1 \<le> pos_x p \<and> pos_x p \<le> 18 \<and> 1 \<le> pos_y p \<and> pos_y p \<le> 13"
      and "moveTarget d p = Some q"
    shows "isInBounds q"
  using assms by (cases d) (auto simp add: isInBounds_iff)

text \<open>
  C9. Every cell of row 0, row 14, column 0 and column 19 of the map is \<open>W\<close>, and \<open>W\<close> is not
  walkable. Hence, whatever messages and idle timers the worker runs from its initial state,
  the player stays strictly inside the border, and the target of a move in any of the four
  directions is in bounds: the \<open>boundary\<close> alternative of the blocked text is never taken.
\<close>

theorem border_water_keeps_player_inside:
  "(\<forall>p. isInBounds p \<and> (pos_x p = 0 \<or> pos_x p = 19 \<or> pos_y p = 0 \<or> pos_y p = 14) \<longrightarrow>
        cellAt p = Inr (Some W)) \<and>
   \<not> walkable (terrainProperties W) \<and>
   (\<forall>inputs t0 d q.
      let p = position (gameState (workerRun inputs (initialWorker t0)))
      in 1 \<le> pos_x p \<and> pos_x p \<le> 18 \<and> 1 \<le> pos_y p \<and> pos_y p \<le> 13 \<and>
         (moveTarget d p = Some q \<longrightarrow> isInBounds q))"
proof (intro conjI allI)
  fix p
  show "isInBounds p \<and> (pos_x p = 0 \<or> pos_x p = 19 \<or> pos_y p = 0 \<or> pos_y p = 14) \<longrightarrow>
        cellAt p = Inr (Some W)"
    by (simp add: cellAt_inBounds border_is_water)
next
  show "\<not> walkable (terrainProperties W)"
    by simp
next
  fix inputs t0 d q
  let ?p = "position (gameState (workerRun inputs (initialWorker t0)))"
  have "canMove ?p = Inr True"
    by (rule workerRun_canMove [OF initialWorker_canMove])
  then have inside: "1 \<le> pos_x ?p \<and> pos_x ?p \<le> 18 \<and> 1 \<le> pos_y ?p \<and> pos_y ?p \<le> 13"
    by (rule canMove_interior)
  then have "moveTarget d ?p = Some q \<longrightarrow> isInBounds q"
    using moveTarget_inBounds by blast
  with inside show "let p = ?p
      in 1 \<le> pos_x p \<and> pos_x p \<le> 18 \<and> 1 \<le> pos_y p \<and> pos_y p \<le> 13 \<and>
         (moveTarget d p = Some q \<longrightarrow> isInBounds q)"
    by (simp add: Let_def)
qed

text \<open>
  (0,7) is a border cell; after one step to the left from the spawn cell the target of
  another step to the left is (0,2), which is in bounds.
\<close>

theorem border_water_keeps_player_inside_witness:
  "isInBounds \<lparr>pos_x = 0, pos_y = 7\<rparr> \<and> cellAt \<lparr>pos_x = 0, pos_y = 7\<rparr> = Inr (Some W) \<and>
   moveTarget Left
     (position (gameState (workerRun [Incoming 1 1 (moveMessage Left)] (initialWorker 0)))) =
     Some \<lparr>pos_x = 0, pos_y = 2\<rparr> \<and>
   isInBounds \<lparr>pos_x = 0, pos_y = 2\<rparr>"
proof -
  have h1: "isInBounds \<lparr>pos_x = 0, pos_y = 7\<rparr>"
    by (simp add: isInBounds_iff)
  have h2: "position (gameState (workerRun [Incoming 1 1 (moveMessage Left)] (initialWorker 0))) =
      \<lparr>pos_x = 1, pos_y = 2\<rparr>"
  proof -
    have a: "isInBounds (position (gameState (initialWorker 0\<lparr>gameState := (gameState (initialWorker 0))\<lparr>lastActivityTime := 1\<rparr>\<rparr>)))"
      by (simp add: isInBounds_iff initialWorker_def)
    have b: "moveTarget Left (position (gameState (initialWorker 0\<lparr>gameState := (gameState (initialWorker 0))\<lparr>lastActivityTime := 1\<rparr>\<rparr>))) = Some \<lparr>pos_x = 1, pos_y = 2\<rparr>"
      by (simp add: initialWorker_def)
    have c: "canMove \<lparr>pos_x = 1, pos_y = 2\<rparr> = Inr True"
      by (simp add: canMove_eq isInBounds_iff) (simp add: terrainMap_def)
    show ?thesis
      by (simp add: onmessage_move moveMessage_def handleMovement_moved [OF a b c] Let_def)
  qed
  have "\<forall>inputs t0 d q.
      let p = position (gameState (workerRun inputs (initialWorker t0)))
      in 1 \<le> pos_x p \<and> pos_x p \<le> 18 \<and> 1 \<le> pos_y p \<and> pos_y p \<le> 13 \<and>
         (moveTarget d p = Some q \<longrightarrow> isInBounds q)"
    by (rule conjunct2 [OF conjunct2 [OF border_water_keeps_player_inside]])
  then have "let p = position (gameState (workerRun [Incoming 1 1 (moveMessage Left)] (initialWorker 0)))
      in 1 \<le> pos_x p \<and> pos_x p \<le> 18 \<and> 1 \<le> pos_y p \<and> pos_y p \<le> 13 \<and>
         (moveTarget Left p = Some \<lparr>pos_x = 0, pos_y = 2\<rparr> \<longrightarrow> isInBounds \<lparr>pos_x = 0, pos_y = 2\<rparr>)"
    by blast
  moreover have "cellAt \<lparr>pos_x = 0, pos_y = 7\<rparr> = Inr (Some W)"
    using border_water_keeps_player_inside h1 by simp
  ultimately show ?thesis
    using h1 h2 by (simp add: Let_def)
qed

section \<open>Start\<close>

lemma onmessage_start:
  "onmessage now now2 (startMessage t) w =
     (let gs = (gameState w)\<lparr>lastActivityTime := now\<rparr>
      in w\<lparr>gameState := gs, idleCheckInterval := True,
           posted := posted w @
             [\<lparr>r_status = STATUS_PROCESSING, r_message = Some ''Game initialized'',
               r_gameState = Some gs, r_terrainMap = Some terrainMap, r_step = None,
               r_total = None, r_result = None\<rparr>],
           progressTasks := progressTasks w @ [case t of None \<Rightarrow> Finite 100 | Some t' \<Rightarrow> t']\<rparr>)"
  by (simp add: onmessage_def startMessage_def MESSAGE_START_def handleGameStart_def
      startIdleCheck_def postMessage_def emptyResponse_def Let_def)

text \<open>
  C2. \<open>handleGameStart\<close> assigns nothing to \<open>gameState\<close>: the snapshot it posts is the state
  as the earlier messages left it. After one move to the right, a start message posts
  position (3,2) facing right, not (2,2) facing down; and after the idle check has set
  \<open>resting\<close>, a start message posts \<open>resting\<close>, not \<open>active\<close>.
\<close>

theorem start_posts_current_state:
  "map_option (\<lambda>gs. (position gs, facing gs))
     (r_gameState (last (posted
        (workerRun [Incoming 1 1 (moveMessage Right), Incoming 2 2 (startMessage None)]
           (initialWorker 0))))) =
   Some (\<lparr>pos_x = 3, pos_y = 2\<rparr>, Right) \<and>
   map_option idleState
     (r_gameState (last (posted
        (workerRun [Incoming 0 0 (startMessage None), IdleTimer 500,
                    Incoming 600 600 (startMessage None)]
           (initialWorker 0))))) =
   Some RESTING"
proof -
  let ?w = "(initialWorker 0)\<lparr>gameState := (gameState (initialWorker 0))\<lparr>lastActivityTime := 1\<rparr>\<rparr>"
  have a: "isInBounds (position (gameState ?w))"
    by (simp add: isInBounds_iff initialWorker_def)
  have b: "moveTarget Right (position (gameState ?w)) = Some \<lparr>pos_x = 3, pos_y = 2\<rparr>"
    by (simp add: initialWorker_def)
  have c: "canMove \<lparr>pos_x = 3, pos_y = 2\<rparr> = Inr True"
    by (simp add: canMove_eq isInBounds_iff) (simp add: terrainMap_def)
  have moved: "map_option (\<lambda>gs. (position gs, facing gs))
     (r_gameState (last (posted
        (workerRun [Incoming 1 1 (moveMessage Right), Incoming 2 2 (startMessage None)]
           (initialWorker 0))))) =
     Some (\<lparr>pos_x = 3, pos_y = 2\<rparr>, Right)"
    by (simp add: onmessage_move moveMessage_def handleMovement_moved [OF a b c] Let_def)
       (simp add: onmessage_start Let_def)
  have rested: "map_option idleState
     (r_gameState (last (posted
        (workerRun [Incoming 0 0 (startMessage None), IdleTimer 500,
                    Incoming 600 600 (startMessage None)]
           (initialWorker 0))))) =
     Some RESTING"
    by (simp add: onmessage_start Let_def idleCheck_def newIdleStateFor_def postMessage_def
        IdleThresholds_SLEEPING_def IdleThresholds_IDLE_def IdleThresholds_RESTING_def
        initialWorker_def)
  from moved rested show ?thesis
    by (rule conjI)
qed

section \<open>Unknown tasks\<close>

text \<open>
  C3, as the code has it. A message whose task is neither \<open>START\<close> nor \<open>GAME_UPDATE\<close> posts
  one message with status \<open>STATUS_ERROR\<close> and the text \<open>Unknown task:\<close> followed by the task,
  and changes \<open>gameState\<close> in one field only: \<open>lastActivityTime\<close> becomes the time of the
  message, as it does for every message.
\<close>

theorem onmessage_unknown_task:
  assumes "task m \<noteq> MESSAGE_START" and "task m \<noteq> MESSAGE_GAME_UPDATE"
  shows "onmessage now now2 m w =
           w\<lparr>gameState := (gameState w)\<lparr>lastActivityTime := now\<rparr>,
             posted := posted w @
               [\<lparr>r_status = STATUS_ERROR, r_message = Some (''Unknown task: '' @ task m),
                 r_gameState = None, r_terrainMap = None, r_step = None, r_total = None,
                 r_result = None\<rparr>]\<rparr>"
  using assms by (simp add: onmessage_def postMessage_def emptyResponse_def)

text \<open>
  The task \<open>PING\<close> at time 1000: the player stays on the spawn cell and the error names the
  task.
\<close>

theorem onmessage_unknown_task_witness:
  "task \<lparr>task = ''PING'', direction = None, time = None\<rparr> \<noteq> MESSAGE_START \<and>
   task \<lparr>task = ''PING'', direction = None, time = None\<rparr> \<noteq> MESSAGE_GAME_UPDATE \<and>
   position (gameState (onmessage 1000 1000 \<lparr>task = ''PING'', direction = None, time = None\<rparr>
     (initialWorker 0))) = \<lparr>pos_x = 2, pos_y = 2\<rparr> \<and>
   map r_message (posted (onmessage 1000 1000 \<lparr>task = ''PING'', direction = None, time = None\<rparr>
     (initialWorker 0))) = [Some ''Unknown task: PING'']"
proof -
  let ?m = "\<lparr>task = ''PING'', direction = None, time = None\<rparr>"
  have h1: "task ?m \<noteq> MESSAGE_START"
    by (simp add: MESSAGE_START_def)
  have h2: "task ?m \<noteq> MESSAGE_GAME_UPDATE"
    by (simp add: MESSAGE_GAME_UPDATE_def)
  show ?thesis
    using h1 h2
    by (simp add: onmessage_unknown_task [OF h1 h2]) (simp add: initialWorker_def)
qed

text \<open>
  The state is not left untouched: the same message changes \<open>lastActivityTime\<close> from 0 to
  1000.
\<close>

theorem unknown_task_alters_lastActivityTime:
  "lastActivityTime (gameState (onmessage 1000 1000
     \<lparr>task = ''PING'', direction = None, time = None\<rparr> (initialWorker 0))) \<noteq>
   lastActivityTime (gameState (initialWorker 0))"
  by (simp add: onmessage_def MESSAGE_START_def MESSAGE_GAME_UPDATE_def
      postMessage_def initialWorker_def)

section \<open>Idle decay\<close>

lemma idleTimers_lastActivityTime:
  "lastActivityTime (gameState (workerRun (map IdleTimer ticks) w)) =
   lastActivityTime (gameState w)"
  by (induction ticks arbitrary: w) (simp_all add: idleCheck_lastActivityTime)

lemma onmessage_move_idleState:
  "idleState (gameState (onmessage t1 t2 (moveMessage d) w)) = ACTIVE"
proof -
  let ?w = "w\<lparr>gameState := (gameState w)\<lparr>lastActivityTime := t1\<rparr>\<rparr>"
  obtain e w' where hm: "handleMovement t2 d ?w = (e, w')"
    by (cases "handleMovement t2 d ?w")
  with handleMovement_idleState [of t2 d ?w] show ?thesis
    by (cases e) (simp_all add: onmessage_move moveMessage_def postMessage_def)
qed

text \<open>
  C4. The idle check computes \<open>sleeping\<close> from 30000 ms without activity on, else \<open>idle\<close>
  from 5000 ms on, else \<open>resting\<close> from 200 ms on, else \<open>active\<close>, and stores it. With no
  message in between (only further timer firings), a later check never yields an earlier
  state of the order active, resting, idle, sleeping than an earlier check did. A move
  message sets \<open>active\<close> whatever the state was.
\<close>

theorem idle_decay_thresholds_monotone:
  "newIdleStateFor t =
     (if t \<ge> 30000 then SLEEPING else if t \<ge> 5000 then IDLE else if t \<ge> 200 then RESTING
      else ACTIVE) \<and>
   idleState (gameState (idleCheck now w)) =
     newIdleStateFor (now - lastActivityTime (gameState w)) \<and>
   (now \<le> now' \<longrightarrow>
      (let w1 = idleCheck now w;
           w2 = idleCheck now' (workerRun (map IdleTimer ticks) w1);
           s1 = idleState (gameState w1);
           s2 = idleState (gameState w2)
       in (s1 = RESTING \<longrightarrow> s2 \<noteq> ACTIVE) \<and>
          (s1 = IDLE \<longrightarrow> s2 \<noteq> ACTIVE \<and> s2 \<noteq> RESTING) \<and>
          (s1 = SLEEPING \<longrightarrow> s2 = SLEEPING))) \<and>
   idleState (gameState (onmessage t1 t2 (moveMessage d) w)) = ACTIVE"
proof -
  have a: "newIdleStateFor t =
     (if t \<ge> 30000 then SLEEPING else if t \<ge> 5000 then IDLE else if t \<ge> 200 then RESTING
      else ACTIVE)" for t
    by (simp add: newIdleStateFor_def IdleThresholds_SLEEPING_def IdleThresholds_IDLE_def
        IdleThresholds_RESTING_def)
  show ?thesis
    unfolding idleCheck_idleState idleTimers_lastActivityTime idleCheck_lastActivityTime Let_def
    using onmessage_move_idleState [of t1 t2 d w] by (auto simp add: a)
qed

text \<open>
  Last activity at 0: the check at 300 gives \<open>resting\<close>, and after another firing at 1000 the
  check at 6000 gives \<open>idle\<close>.
\<close>

theorem idle_decay_thresholds_monotone_witness:
  "(300::int) \<le> 6000 \<and>
   idleState (gameState (idleCheck 300 (initialWorker 0))) = RESTING \<and>
   idleState (gameState
     (idleCheck 6000 (workerRun (map IdleTimer [1000]) (idleCheck 300 (initialWorker 0))))) = IDLE \<and>
   idleState (gameState (onmessage 7000 7000 (moveMessage Up)
     (idleCheck 6000 (initialWorker 0)))) = ACTIVE"
proof -
  have s1: "idleState (gameState (idleCheck 300 (initialWorker 0))) = RESTING"
    using idle_decay_thresholds_monotone [of 300 300 "initialWorker 0" 6000 "[1000]" 0 0 Up]
    by (simp add: initialWorker_def)
  have s2: "idleState (gameState
     (idleCheck 6000 (workerRun (map IdleTimer [1000]) (idleCheck 300 (initialWorker 0))))) = IDLE"
    by (simp add: idleCheck_idleState idleCheck_lastActivityTime idleTimers_lastActivityTime
        del: workerRun.simps list.map)
       (simp add: newIdleStateFor_def IdleThresholds_SLEEPING_def IdleThresholds_IDLE_def
        initialWorker_def)
  have s3: "idleState (gameState (onmessage 7000 7000 (moveMessage Up)
     (idleCheck 6000 (initialWorker 0)))) = ACTIVE"
    using idle_decay_thresholds_monotone [of 0 0 "idleCheck 6000 (initialWorker 0)" 0 "[]" 7000 7000 Up]
    by simp
  from s1 s2 s3 show ?thesis
    by simp
qed

section \<open>The progress task\<close>

lemma progressLoop_eq:
  "progressLoop i n out =
     out @ map (\<lambda>j. (emptyResponse STATUS_PROCESSING)\<lparr>r_step := Some (j + 1), r_total := Some n\<rparr>) [i..<n]"
proof (induction i n out rule: progressLoop.induct)
  case (1 i n out)
  show ?case
  proof (cases "i < n")
    case True
    with 1 show ?thesis
      by (subst progressLoop.simps) (simp add: upt_conv_Cons)
  next
    case False
    then show ?thesis
      by (subst progressLoop.simps) simp
  qed
qed

lemma roundHalfEven_of_int: "roundHalfEven (of_int m) = m"
  by (simp add: roundHalfEven_def)

lemma round_scaled:
  assumes "0 \<le> k"
  shows "of_int (roundHalfEven (of_int a / pow2 (- k))) * pow2 (- k) = (of_int a :: rat)"
proof -
  have p: "pow2 (- k) = 1 / 2 ^ nat k"
    using assms by (cases "k = 0") (simp_all add: pow2_def)
  have "of_int a / pow2 (- k) = (of_int (a * 2 ^ nat k) :: rat)"
    by (simp add: p)
  then have "roundHalfEven (of_int a / pow2 (- k)) = a * 2 ^ nat k"
    by (simp only: roundHalfEven_of_int)
  then show ?thesis
    by (simp add: p)
qed

text \<open>An integer of at most 53 bits is its own nearest double.\<close>

lemma roundToDouble_nat:
  assumes "1 \<le> a" and "a \<le> 2 ^ 53"
  shows "of_int (roundHalfEven (of_int a / pow2 (max (floorLog2 (of_int a)) (- 1022) - 52))) *
           pow2 (max (floorLog2 (of_int a)) (- 1022) - 52) = (of_int a :: rat)"
proof -
  define L where "L = bitlen a"
  from assms(1) bitlen_bounds [of a] have b: "2 ^ nat (L - 1) \<le> a" "a < 2 ^ nat L"
    by (simp_all add: L_def)
  have L1: "1 \<le> L"
  proof (rule ccontr)
    assume "\<not> 1 \<le> L"
    then have "nat L = 0" by simp
    with b(2) assms(1) show False by simp
  qed
  from b(1) assms(2) have "(2::int) ^ nat (L - 1) \<le> 2 ^ 53"
    by simp
  then have "nat (L - 1) \<le> 53"
    by (simp only: power_increasing_iff)
  with L1 have L54: "L \<le> 54"
    by simp
  have fl: "floorLog2 (of_int a) = L - 1"
    using assms(1) by (simp add: floorLog2_def L_def)
  have u: "max (floorLog2 (of_int a)) (- 1022) - 52 = L - 53"
    using L1 by (simp add: fl)
  show ?thesis
  proof (cases "L \<le> 53")
    case True
    then have "0 \<le> 53 - L" by simp
    from round_scaled [OF this, of a] show ?thesis
      by (simp add: u)
  next
    case False
    with L54 have L: "L = 54" by simp
    with b(1) assms(2) have a: "a = 2 ^ 53"
      by simp
    from u L have u1: "max (floorLog2 (of_int a)) (- 1022) - 52 = 1"
      by simp
    have "of_int (roundHalfEven (of_int a / pow2 1)) * pow2 1 = (of_int a :: rat)"
      by (simp add: a pow2_def roundHalfEven_def)
    then show ?thesis
      by (simp only: u1)
  qed
qed

lemma roundToDouble_of_int:
  assumes "\<bar>n\<bar> \<le> 2 ^ 53"
  shows "roundToDouble (of_int n) = Finite (of_int n)"
proof (cases "n = 0")
  case True
  then show ?thesis by (simp add: roundToDouble_def)
next
  case False
  then have a1: "1 \<le> \<bar>n\<bar>" by simp
  have abs: "\<bar>of_int n :: rat\<bar> = of_int \<bar>n\<bar>"
    by simp
  have small: "(of_int \<bar>n\<bar> :: rat) < 2 ^ 1024"
  proof -
    have "(of_int \<bar>n\<bar> :: rat) \<le> of_int (2 ^ 53)"
      using assms by (simp only: of_int_le_iff)
    also have "\<dots> < 2 ^ 1024" by simp
    finally show ?thesis .
  qed
  show ?thesis
    using False small
    by (simp only: roundToDouble_def Let_def abs roundToDouble_nat [OF a1 assms]) auto
qed

lemma jsMul_exact:
  assumes "\<bar>n * 100\<bar> \<le> 2 ^ 53"
  shows "jsMul (Finite (of_int n)) (Finite 100) = Finite (of_int (n * 100))"
  using roundToDouble_of_int [OF assms] by simp

lemma jsMul_largest_odd:
  "jsMul (Finite 9007199254740991) (Finite 100) = Finite 900719925474099072"
  by code_simp

lemma longRunningFunction_eq:
  "longRunningFunction numberText t =
     map (\<lambda>j. \<lparr>r_status = STATUS_PROCESSING, r_message = None, r_gameState = None,
                r_terrainMap = None, r_step = Some j, r_total = Some 100, r_result = None\<rparr>)
         [1..<101] @
     [\<lparr>r_status = STATUS_FINISHED,
       r_message = Some (''Task finished with time = '' @ numberText t),
       r_gameState = None, r_terrainMap = None, r_step = None, r_total = None,
       r_result = Some (jsMul t (Finite 100))\<rparr>]"
proof -
  have "[1..<101] = map Suc [0..<100]"
    by (simp only: map_Suc_upt) simp
  then show ?thesis
    by (simp add: longRunningFunction_def progressLoop_eq emptyResponse_def Let_def comp_def)
qed

text \<open>
  C6, as the code has it. For every step delay \<open>t\<close>, a number of the language,
  \<open>longRunningFunction\<close> posts the processing messages with steps 1 to 100 of 100, in this
  order, and then one message with status \<open>STATUS_FINISHED\<close> whose result is the product
  \<open>t * 100\<close> of the number arithmetic, the double nearest to the exact product. It is the
  exact product whenever \<open>t\<close> is an integer with \<open>\<bar>t * 100\<bar> \<le> 2 ^ 53\<close>; for the delay 10 it is
  1000. A start message starts the task with the delay it carries, or with 100 when it
  carries none.
\<close>

theorem longRunningFunction_events:
  "longRunningFunction numberText t =
     map (\<lambda>j. \<lparr>r_status = STATUS_PROCESSING, r_message = None, r_gameState = None,
                r_terrainMap = None, r_step = Some j, r_total = Some 100, r_result = None\<rparr>)
         [1..<101] @
     [\<lparr>r_status = STATUS_FINISHED,
       r_message = Some (''Task finished with time = '' @ numberText t),
       r_gameState = None, r_terrainMap = None, r_step = None, r_total = None,
       r_result = Some (jsMul t (Finite 100))\<rparr>] \<and>
   length (filter (\<lambda>r. r_status r = STATUS_PROCESSING) (longRunningFunction numberText t)) = 100 \<and>
   length (filter (\<lambda>r. r_status r = STATUS_FINISHED) (longRunningFunction numberText t)) = 1 \<and>
   (\<bar>n * 100\<bar> \<le> 2 ^ 53 \<longrightarrow>
      map r_result (filter (\<lambda>r. r_status r = STATUS_FINISHED)
        (longRunningFunction numberText (Finite (of_int n)))) = [Some (Finite (of_int (n * 100)))]) \<and>
   progressTasks (handleGameStart (Some t) w) = progressTasks w @ [t] \<and>
   progressTasks (handleGameStart None w) = progressTasks w @ [Finite 100]"
proof -
  have counts: "length (filter (\<lambda>r. r_status r = STATUS_PROCESSING)
        (longRunningFunction numberText t)) = 100 \<and>
      length (filter (\<lambda>r. r_status r = STATUS_FINISHED) (longRunningFunction numberText t)) = 1"
    by (simp add: longRunningFunction_eq comp_def del: upt_Suc)
  have exact: "map r_result (filter (\<lambda>r. r_status r = STATUS_FINISHED)
        (longRunningFunction numberText (Finite (of_int n)))) = [Some (Finite (of_int (n * 100)))]"
    if "\<bar>n * 100\<bar> \<le> 2 ^ 53"
    by (simp add: longRunningFunction_eq comp_def jsMul_exact [OF that] del: upt_Suc jsMul.simps)
  have tasks: "progressTasks (handleGameStart (Some t) w) = progressTasks w @ [t] \<and>
      progressTasks (handleGameStart None w) = progressTasks w @ [Finite 100]"
    by (simp add: handleGameStart_def postMessage_def startIdleCheck_def Let_def)
  from longRunningFunction_eq [of numberText t] counts exact tasks show ?thesis
    by blast
qed

text \<open>
  The delay 10, printed as \<open>10\<close>: one finished message, with the result 1000.
\<close>

theorem longRunningFunction_events_witness:
  "\<bar>(10::int) * 100\<bar> \<le> 2 ^ 53 \<and>
   map r_result (filter (\<lambda>r. r_status r = STATUS_FINISHED)
     (longRunningFunction (\<lambda>x. ''10'') (Finite 10))) = [Some (Finite 1000)]"
proof -
  have h: "\<bar>(10::int) * 100\<bar> \<le> 2 ^ 53"
    by simp
  from longRunningFunction_events [of "\<lambda>x. ''10''" "Finite 10" 10] h
  have "map r_result (filter (\<lambda>r. r_status r = STATUS_FINISHED)
      (longRunningFunction (\<lambda>x. ''10'') (Finite (of_int 10)))) = [Some (Finite (of_int (10 * 100)))]"
    by blast
  with h show ?thesis
    by simp
qed

text \<open>
  The result is not always the exact product: for the delay \<open>2 ^ 53 - 1\<close>, printed as
  \<open>9007199254740991\<close>, the nearest double is 28 below it.
\<close>

theorem longRunningFunction_result_rounded:
  "map r_result (filter (\<lambda>r. r_status r = STATUS_FINISHED)
     (longRunningFunction (\<lambda>x. ''9007199254740991'') (Finite 9007199254740991))) =
     [Some (Finite 900719925474099072)] \<and>
   (900719925474099072 :: rat) \<noteq> 9007199254740991 * 100"
  by (simp add: longRunningFunction_eq comp_def jsMul_largest_odd del: upt_Suc jsMul.simps)

section \<open>Clouds\<close>

lemma createCloud_snd: "snd (createCloud rnd g i False k) = k + 5"
  by (simp add: createCloud_def Let_def)

lemma createCloud_canvas:
  "canvas_width g' = canvas_width g \<Longrightarrow> canvas_height g' = canvas_height g \<Longrightarrow>
   createCloud rnd g' i force k = createCloud rnd g i force k"
  by (cases force) (simp_all add: createCloud_def)

lemma createClouds_eq:
  "createClouds rnd g is k =
     (map (\<lambda>j. fst (createCloud rnd g (is ! j) False (k + 5 * j))) [0..<length is],
      k + 5 * length is)"
proof (induction "is" arbitrary: k)
  case Nil
  show ?case by simp
next
  case (Cons i "is")
  obtain c k1 where c: "createCloud rnd g i False k = (c, k1)"
    by (cases "createCloud rnd g i False k")
  with createCloud_snd [of rnd g i k] have k1: "k1 = k + 5"
    by simp
  show ?case
    by (simp add: c Cons.IH k1 map_upt_Suc add.assoc del: upt_Suc)
qed

lemma initializeClouds_eq:
  "initializeClouds rnd g k =
     (g\<lparr>clouds := map (\<lambda>i. fst (createCloud rnd g i False (k + 5 * i))) [0..<8]\<rparr>, k + 40)"
proof -
  have "map (\<lambda>j. fst (createCloud rnd g ([0..<8] ! j) False (k + 5 * j))) [0..<8] =
      map (\<lambda>i. fst (createCloud rnd g i False (k + 5 * i))) [0..<8]"
    by (rule map_cong) (simp_all del: upt_Suc)
  then show ?thesis
    by (simp add: initializeClouds_def CLOUD_COUNT_def createClouds_eq del: upt_Suc)
qed

lemma initializeClouds_length: "length (clouds (fst (initializeClouds rnd g k))) = 8"
  by (simp add: initializeClouds_eq del: upt_Suc)

lemma updateCloudsFrom_length: "length (fst (updateCloudsFrom rnd g idx cs k)) = length cs"
  by (induction cs arbitrary: idx k) (simp_all add: Let_def case_prod_beta)

lemma updateClouds_length: "length (clouds (fst (updateClouds rnd g k))) = length (clouds g)"
  by (simp add: updateClouds_def Let_def updateCloudsFrom_length case_prod_beta)

lemma updateCloudsFrom_slot:
  assumes "i < length cs"
  shows "\<exists>k'\<ge>k. fst (updateCloudsFrom rnd g idx cs k) ! i =
     (if cloud_x (cs ! i) + cloud_speed (cs ! i) > canvas_width g + cloud_size (cs ! i)
      then fst (createCloud rnd g (idx + i) True k')
      else (cs ! i)\<lparr>cloud_x := cloud_x (cs ! i) + cloud_speed (cs ! i)\<rparr>)"
  using assms
proof (induction cs arbitrary: idx k i)
  case Nil
  then show ?case by simp
next
  case (Cons c cs)
  let ?k1 = "if cloud_x c + cloud_speed c > canvas_width g + cloud_size c
             then snd (createCloud rnd g idx True k) else k"
  have k1: "k \<le> ?k1"
    by (simp add: createCloud_def Let_def)
  show ?case
  proof (cases i)
    case 0
    then show ?thesis
      by (auto simp add: Let_def case_prod_beta intro: exI [of _ k])
  next
    case (Suc j)
    with Cons.prems have "j < length cs" by simp
    from Cons.IH [OF this, of ?k1 "Suc idx"] obtain k' where
      "?k1 \<le> k'"
      "fst (updateCloudsFrom rnd g (Suc idx) cs ?k1) ! j =
         (if cloud_x (cs ! j) + cloud_speed (cs ! j) > canvas_width g + cloud_size (cs ! j)
          then fst (createCloud rnd g (Suc idx + j) True k')
          else (cs ! j)\<lparr>cloud_x := cloud_x (cs ! j) + cloud_speed (cs ! j)\<rparr>)"
      by blast
    with k1 Suc show ?thesis
      by (intro exI [of _ k']) (auto simp add: Let_def case_prod_beta)
  qed
qed

lemma createCloud_offscreen:
  "cloud_size (fst (createCloud rnd g i True k)) = 60 + rnd k * 100"
  "cloud_x (fst (createCloud rnd g i True k)) = - cloud_size (fst (createCloud rnd g i True k))"
  "cloud_y (fst (createCloud rnd g i True k)) = rnd (k + 1) * (canvas_height g * 0.4)"
  by (simp_all add: createCloud_def Let_def)

lemma createCloud_offscreen_x:
  "0 \<le> rnd k \<Longrightarrow> cloud_x (fst (createCloud rnd g i True k)) \<le> 0"
  by (simp add: createCloud_def Let_def)

lemma update_clouds_length: "length (clouds (fst (update rnd pnow dnow delta g k))) = length (clouds g)"
proof -
  have "length (clouds (fst (updateClouds rnd g' k))) = length (clouds g)"
    if "clouds g' = clouds g" for g'
    using that updateClouds_length [of rnd g' k] by simp
  then show ?thesis
    by (simp add: update_def Let_def case_prod_beta)
qed

lemma gameLoop_clouds_length:
  "length (clouds (fst (snd (gameLoop rnd timestamp pnow dnow handle g k)))) = length (clouds g)"
  by (simp add: gameLoop_def Let_def case_prod_beta update_clouds_length)

lemma setAnimationSettings_clouds_length:
  "length (clouds g) = 8 \<Longrightarrow> length (clouds (fst (setAnimationSettings rnd s g k))) = 8"
  by (simp add: setAnimationSettings_def Let_def case_prod_beta initializeClouds_length)

lemma workerOnmessage_clouds: "clouds (workerOnmessage r g) = clouds g"
  by (simp add: workerOnmessage_def handleStateUpdate_def Let_def split: option.split)

lemma gameStep_clouds_length:
  assumes "length (clouds (fst gk)) = 8"
  shows "length (clouds (fst (gameStep rnd i gk))) = 8"
proof (cases gk)
  case (Pair g k)
  with assms show ?thesis
    by (cases i)
       (simp_all add: start_def stop_def handleResize_def gameLoop_clouds_length
          initializeClouds_length setAnimationSettings_clouds_length workerOnmessage_clouds)
qed

lemma gameRun_clouds_length:
  "length (clouds (fst gk)) = 8 \<Longrightarrow> length (clouds (fst (gameRun rnd is gk))) = 8"
  by (induction "is" arbitrary: gk) (simp_all add: gameStep_clouds_length)

lemma newGame_clouds_length: "length (clouds (fst (newGame rnd width height fps dnow k))) = 8"
  by (simp add: newGame_def initializeClouds_length)

text \<open>
  C8. A game has 8 clouds after its construction and after any sequence of starts, stops,
  frames, resizes, settings changes and worker messages. \<open>updateClouds\<close> keeps the number
  of clouds; with clouds enabled and \<open>Math.random()\<close> in its range from 0 (inclusive) to 1
  (exclusive), a cloud that has moved past the canvas width plus its size is replaced, in its
  slot, by a cloud with \<open>x \<le> 0\<close> whose size and height come from numbers of the random
  sequence not yet drawn (\<open>x\<close> is minus the new size); any other cloud is only moved by its
  speed.
\<close>

theorem cloud_count_and_recycling:
  "length (clouds (fst (gameRun rnd inputs (newGame rnd width height fps dnow k0)))) = 8 \<and>
   length (clouds (fst (updateClouds rnd g k))) = length (clouds g) \<and>
   (enableClouds (animationSettings g) \<and> (\<forall>n. 0 \<le> rnd n \<and> rnd n < 1) \<and> i < length (clouds g) \<longrightarrow>
      (let old = clouds g ! i; new = clouds (fst (updateClouds rnd g k)) ! i
       in if cloud_x old + cloud_speed old > canvas_width g + cloud_size old
          then cloud_x new \<le> 0 \<and>
               (\<exists>k'\<ge>k. cloud_size new = 60 + rnd k' * 100 \<and>
                        cloud_x new = - cloud_size new \<and>
                        cloud_y new = rnd (k' + 1) * (canvas_height g * 0.4))
          else new = old\<lparr>cloud_x := cloud_x old + cloud_speed old\<rparr>))"
proof (intro conjI impI)
  show "length (clouds (fst (gameRun rnd inputs (newGame rnd width height fps dnow k0)))) = 8"
    by (rule gameRun_clouds_length [OF newGame_clouds_length])
next
  show "length (clouds (fst (updateClouds rnd g k))) = length (clouds g)"
    by (rule updateClouds_length)
next
  assume a: "enableClouds (animationSettings g) \<and> (\<forall>n. 0 \<le> rnd n \<and> rnd n < 1) \<and>
    i < length (clouds g)"
  let ?g1 = "g\<lparr>cloudOffset := cloudOffset g + 0.2\<rparr>"
  from a have new: "clouds (fst (updateClouds rnd g k)) = fst (updateCloudsFrom rnd ?g1 0 (clouds g) k)"
    by (simp add: updateClouds_def Let_def case_prod_beta)
  from a have "i < length (clouds g)" by simp
  from updateCloudsFrom_slot [OF this, of k rnd ?g1 0] obtain k' where k': "k \<le> k'"
    "fst (updateCloudsFrom rnd ?g1 0 (clouds g) k) ! i =
     (if cloud_x (clouds g ! i) + cloud_speed (clouds g ! i) > canvas_width g + cloud_size (clouds g ! i)
      then fst (createCloud rnd ?g1 i True k')
      else (clouds g ! i)\<lparr>cloud_x := cloud_x (clouds g ! i) + cloud_speed (clouds g ! i)\<rparr>)"
    by auto
  from a have r: "0 \<le> rnd k'" by simp
  show "let old = clouds g ! i; new = clouds (fst (updateClouds rnd g k)) ! i
       in if cloud_x old + cloud_speed old > canvas_width g + cloud_size old
          then cloud_x new \<le> 0 \<and>
               (\<exists>k'\<ge>k. cloud_size new = 60 + rnd k' * 100 \<and>
                        cloud_x new = - cloud_size new \<and>
                        cloud_y new = rnd (k' + 1) * (canvas_height g * 0.4))
          else new = old\<lparr>cloud_x := cloud_x old + cloud_speed old\<rparr>"
  proof (cases "cloud_x (clouds g ! i) + cloud_speed (clouds g ! i) > canvas_width g + cloud_size (clouds g ! i)")
    case True
    with k' have eq: "clouds (fst (updateClouds rnd g k)) ! i = fst (createCloud rnd ?g1 i True k')"
      by (simp add: new)
    let ?c = "fst (createCloud rnd ?g1 i True k')"
    have "k \<le> k' \<and> cloud_size ?c = 60 + rnd k' * 100 \<and> cloud_x ?c = - cloud_size ?c \<and>
        cloud_y ?c = rnd (k' + 1) * (canvas_height g * 0.4)"
      using createCloud_offscreen [of rnd ?g1 i k'] k'(1) by simp
    then have "\<exists>j\<ge>k. cloud_size ?c = 60 + rnd j * 100 \<and> cloud_x ?c = - cloud_size ?c \<and>
        cloud_y ?c = rnd (j + 1) * (canvas_height g * 0.4)"
      by (rule exI [of _ k'])
    moreover have "cloud_x ?c \<le> 0"
      using createCloud_offscreen_x [of rnd k' ?g1 i] r by simp
    ultimately show ?thesis
      using True by (simp only: Let_def eq if_True)
  next
    case False
    with k' show ?thesis
      by (simp add: Let_def new)
  qed
qed

text \<open>
  On an 800 wide canvas, a cloud at 900 with speed 1 and size 60 leaves the canvas and its
  successor in slot 3 starts left of it.
\<close>

theorem cloud_count_and_recycling_witness:
  "enableClouds (animationSettings
     ((fst (newGame (\<lambda>n. 1 / 2) 800 600 None 0 0))
        \<lparr>animationSettings := \<lparr>enableClouds = True, enableWaves = False, enableRiver = False\<rparr>,
         clouds := replicate 8 \<lparr>cloud_x = 900, cloud_y = 10, cloud_speed = 1, cloud_size = 60,
                                 cloud_opacity = 1 / 2\<rparr>\<rparr>)) \<and>
   (\<forall>n::nat. (0::real) \<le> 1 / 2 \<and> (1::real) / 2 < 1) \<and>
   cloud_x (clouds (fst (updateClouds (\<lambda>n. 1 / 2)
     ((fst (newGame (\<lambda>n. 1 / 2) 800 600 None 0 0))
        \<lparr>animationSettings := \<lparr>enableClouds = True, enableWaves = False, enableRiver = False\<rparr>,
         clouds := replicate 8 \<lparr>cloud_x = 900, cloud_y = 10, cloud_speed = 1, cloud_size = 60,
                                 cloud_opacity = 1 / 2\<rparr>\<rparr>) 40)) ! 3) \<le> 0"
proof -
  let ?g = "(fst (newGame (\<lambda>n. 1 / 2) 800 600 None 0 0))
        \<lparr>animationSettings := \<lparr>enableClouds = True, enableWaves = False, enableRiver = False\<rparr>,
         clouds := replicate 8 \<lparr>cloud_x = 900, cloud_y = 10, cloud_speed = 1, cloud_size = 60,
                                 cloud_opacity = 1 / 2\<rparr>\<rparr>"
  have h: "enableClouds (animationSettings ?g) \<and> (\<forall>n. (0::real) \<le> (\<lambda>n::nat. 1 / 2) n \<and> (\<lambda>n::nat. 1 / 2) n < (1::real)) \<and>
      3 < length (clouds ?g)"
    by simp
  have w: "canvas_width ?g = 800"
    by (simp add: newGame_def initializeClouds_eq)
  from cloud_count_and_recycling [of "\<lambda>n. 1 / 2" "[]" 800 600 None 0 0 ?g 40 3] h
  have "cloud_x (clouds (fst (updateClouds (\<lambda>n. 1 / 2) ?g 40)) ! 3) \<le> 0"
    by (simp add: Let_def w)
  with h show ?thesis
    by simp
qed

section \<open>Animation settings\<close>

text \<open>
  C10. \<open>setAnimationSettings\<close> changes five fields and no other: the settings are merged with
  the argument; the wave phase, the river phase and the cloud offset become 0 unless the
  argument itself has the respective property \<open>true\<close>, and in the case of the clouds all 8 are
  created anew. So a feature that stays enabled in the merged settings, because the argument
  does not mention it, still has its phase reset.
\<close>

theorem setAnimationSettings_effect:
  "fst (setAnimationSettings rnd s g k) =
     g\<lparr>animationSettings :=
         \<lparr>enableClouds = (case arg_enableClouds s of Some b \<Rightarrow> b | None \<Rightarrow> enableClouds (animationSettings g)),
          enableWaves = (case arg_enableWaves s of Some b \<Rightarrow> b | None \<Rightarrow> enableWaves (animationSettings g)),
          enableRiver = (case arg_enableRiver s of Some b \<Rightarrow> b | None \<Rightarrow> enableRiver (animationSettings g))\<rparr>,
       cloudOffset := (if arg_enableClouds s = Some True then cloudOffset g else 0),
       clouds := (if arg_enableClouds s = Some True then clouds g
                  else map (\<lambda>i. fst (createCloud rnd g i False (k + 5 * i))) [0..<8]),
       waterOffset := (if arg_enableWaves s = Some True then waterOffset g else 0),
       riverOffset := (if arg_enableRiver s = Some True then riverOffset g else 0)\<rparr> \<and>
   (enableWaves (animationSettings g) \<and> arg_enableWaves s = None \<longrightarrow>
      enableWaves (animationSettings (fst (setAnimationSettings rnd s g k))) \<and>
      waterOffset (fst (setAnimationSettings rnd s g k)) = 0) \<and>
   (enableRiver (animationSettings g) \<and> arg_enableRiver s = None \<longrightarrow>
      enableRiver (animationSettings (fst (setAnimationSettings rnd s g k))) \<and>
      riverOffset (fst (setAnimationSettings rnd s g k)) = 0) \<and>
   (enableClouds (animationSettings g) \<and> arg_enableClouds s = None \<longrightarrow>
      enableClouds (animationSettings (fst (setAnimationSettings rnd s g k))) \<and>
      cloudOffset (fst (setAnimationSettings rnd s g k)) = 0 \<and>
      length (clouds (fst (setAnimationSettings rnd s g k))) = 8)"
proof -
  have cc: "createCloud rnd (g\<lparr>animationSettings := a, cloudOffset := 0\<rparr>) i False j =
      createCloud rnd g i False j" for a i j
    by (rule createCloud_canvas) simp_all
  have eq: "fst (setAnimationSettings rnd s g k) =
     g\<lparr>animationSettings :=
         \<lparr>enableClouds = (case arg_enableClouds s of Some b \<Rightarrow> b | None \<Rightarrow> enableClouds (animationSettings g)),
          enableWaves = (case arg_enableWaves s of Some b \<Rightarrow> b | None \<Rightarrow> enableWaves (animationSettings g)),
          enableRiver = (case arg_enableRiver s of Some b \<Rightarrow> b | None \<Rightarrow> enableRiver (animationSettings g))\<rparr>,
       cloudOffset := (if arg_enableClouds s = Some True then cloudOffset g else 0),
       clouds := (if arg_enableClouds s = Some True then clouds g
                  else map (\<lambda>i. fst (createCloud rnd g i False (k + 5 * i))) [0..<8]),
       waterOffset := (if arg_enableWaves s = Some True then waterOffset g else 0),
       riverOffset := (if arg_enableRiver s = Some True then riverOffset g else 0)\<rparr>"
    by (simp add: setAnimationSettings_def Let_def initializeClouds_eq cc del: upt_Suc)
  show ?thesis
    by (simp only: eq) (simp del: upt_Suc)
qed

text \<open>
  With everything enabled and an empty argument, waves stay enabled and the wave phase
  drops from 2 to 0.
\<close>

theorem setAnimationSettings_effect_witness:
  "enableWaves (animationSettings
     ((fst (newGame (\<lambda>n. 1 / 2) 800 600 None 0 0))
        \<lparr>animationSettings := \<lparr>enableClouds = True, enableWaves = True, enableRiver = True\<rparr>,
         cloudOffset := 3, waterOffset := 2, riverOffset := 1\<rparr>)) \<and>
   arg_enableWaves \<lparr>arg_enableClouds = None, arg_enableWaves = None, arg_enableRiver = None\<rparr> = None \<and>
   enableWaves (animationSettings (fst (setAnimationSettings (\<lambda>n. 1 / 2)
     \<lparr>arg_enableClouds = None, arg_enableWaves = None, arg_enableRiver = None\<rparr>
     ((fst (newGame (\<lambda>n. 1 / 2) 800 600 None 0 0))
        \<lparr>animationSettings := \<lparr>enableClouds = True, enableWaves = True, enableRiver = True\<rparr>,
         cloudOffset := 3, waterOffset := 2, riverOffset := 1\<rparr>) 40))) \<and>
   waterOffset (fst (setAnimationSettings (\<lambda>n. 1 / 2)
     \<lparr>arg_enableClouds = None, arg_enableWaves = None, arg_enableRiver = None\<rparr>
     ((fst (newGame (\<lambda>n. 1 / 2) 800 600 None 0 0))
        \<lparr>animationSettings := \<lparr>enableClouds = True, enableWaves = True, enableRiver = True\<rparr>,
         cloudOffset := 3, waterOffset := 2, riverOffset := 1\<rparr>) 40)) = 0"
proof -
  let ?g = "(fst (newGame (\<lambda>n. 1 / 2) 800 600 None 0 0))
        \<lparr>animationSettings := \<lparr>enableClouds = True, enableWaves = True, enableRiver = True\<rparr>,
         cloudOffset := 3, waterOffset := 2, riverOffset := 1\<rparr>"
  let ?s = "\<lparr>arg_enableClouds = None, arg_enableWaves = None, arg_enableRiver = None\<rparr>"
  have h: "enableWaves (animationSettings ?g) \<and> arg_enableWaves ?s = None"
    by simp
  from setAnimationSettings_effect [of "\<lambda>n. 1 / 2" ?s ?g 40]
  have "enableWaves (animationSettings ?g) \<and> arg_enableWaves ?s = None \<longrightarrow>
      enableWaves (animationSettings (fst (setAnimationSettings (\<lambda>n. 1 / 2) ?s ?g 40))) \<and>
      waterOffset (fst (setAnimationSettings (\<lambda>n. 1 / 2) ?s ?g 40)) = 0"
    by (elim conjE)
  with h show ?thesis
    by blast
qed

section \<open>Frame throttle\<close>

text \<open>Nothing that happens to a game changes \<open>frameThrottle\<close>: it stays what the constructor
  computed from \<open>config.fps\<close>.\<close>

lemma gameStep_frameThrottle:
  "frameThrottle (fst (gameStep rnd i gk)) = frameThrottle (fst gk)"
  by (cases gk; cases i)
     (simp_all add: start_def stop_def gameLoop_def update_def updateClouds_def handleResize_def
        setAnimationSettings_def initializeClouds_def workerOnmessage_def handleStateUpdate_def
        Let_def case_prod_beta split: option.split)

lemma gameRun_frameThrottle:
  "frameThrottle (fst (gameRun rnd is gk)) = frameThrottle (fst gk)"
  by (induction "is" arbitrary: gk) (simp_all add: gameStep_frameThrottle)

lemma newGame_frameThrottle:
  "frameThrottle (fst (gameRun rnd is (newGame rnd width height fps dnow k))) =
     1000 / (case fps of None \<Rightarrow> 30 | Some f \<Rightarrow> if f = 0 then 30 else f)"
  by (simp add: gameRun_frameThrottle newGame_def initializeClouds_def case_prod_beta)

lemma sleeping_response:
  "last (posted (workerRun [Incoming 0 0 (startMessage None), IdleTimer 30000] (initialWorker 0))) =
   \<lparr>r_status = STATUS_PROCESSING, r_message = Some ''State changed to sleeping'',
    r_gameState = Some ((gameState (initialWorker 0))\<lparr>idleState := SLEEPING\<rparr>),
    r_terrainMap = None, r_step = None, r_total = None, r_result = None\<rparr>"
  by (simp add: onmessage_def startMessage_def MESSAGE_START_def handleGameStart_def
      startIdleCheck_def postMessage_def Let_def idleCheck_def newIdleStateFor_def
      IdleThresholds_SLEEPING_def initialWorker_def emptyResponse_def)

text \<open>
  C7. \<open>gameLoop\<close> compares the time since the last draw with \<open>frameThrottle\<close>, which the
  constructor sets from \<open>config.fps\<close> and nothing changes afterwards;
  \<open>getFrameThrottleForState\<close> is never called. A game built for 30 frames per second last
  drew at 30000 ms and then learns from the worker that the player is sleeping, for which
  \<open>getFrameThrottleForState\<close> gives 200 ms; the frame at 30050 ms is drawn all the same.
\<close>

theorem sleeping_frame_drawn_after_50ms:
  "(let r = last (posted (workerRun [Incoming 0 0 (startMessage None), IdleTimer 30000]
                     (initialWorker 0)));
        gk = gameRun (\<lambda>n. 1 / 2) [Start 0 0 1, Frame 30000 30000 30000 2, FromWorker r]
               (newGame (\<lambda>n. 1 / 2) 800 600 (Some 30) 0 0)
    in idleState (state (fst gk)) = SLEEPING \<and>
       lastFrameTime (fst gk) = 30000 \<and>
       getFrameThrottleForState (idleState (state (fst gk))) = 200 \<and>
       fst (gameLoop (\<lambda>n. 1 / 2) 30050 30050 30050 3 (fst gk) (snd gk)) = True)"
  unfolding sleeping_response
  by (simp add: Let_def newGame_def initializeClouds_eq start_def gameLoop_def update_def
      updateClouds_def workerOnmessage_def handleStateUpdate_def getFrameThrottleForState_def
      initialWorker_def GameState.truncate_def del: upt_Suc)

end
